theory Spec2Isabelle
  imports Main "HOL-Library.Word"
begin

section \<open>The lobby store: accounts, users, battle records and the ranking cache\<close>

text \<open>
  The Go package \<^verbatim>\<open>db\<close> keeps three SQLite tables (\<^verbatim>\<open>account\<close>, \<^verbatim>\<open>user\<close>,
  \<^verbatim>\<open>battle_record\<close>) behind an \<^verbatim>\<open>*sqlx.DB\<close> handle and a map of cached leaderboards
  behind a mutex.  The embedding has two layers.

  \<^item> The store operations (\<^verbatim>\<open>RegisterAccount\<close> ... \<^verbatim>\<open>GetKillCountRanking\<close>) are modelled
    on the tables at the schema of the \<^verbatim>\<open>schema\<close> constant, every row read through the Go
    struct it is scanned into.  A table is the list of its rows; a statement is a function
    on the tables; \<^verbatim>\<open>time.Now()\<close> and the generated tokens are parameters.
  \<^item> \<^verbatim>\<open>Init\<close> and \<^verbatim>\<open>Migrate\<close> work on table definitions, so they are modelled on a
    catalogue of untyped tables (names, columns, defaults, primary key, rows).

  Calls are taken one at a time: the mutex around the cache map and SQLite's own locking
  order concurrent callers, and the model describes what one call does to the state it
  finds.

  Every call into the database can fail for a reason outside the program (disk, locking,
  connection).  Such a failure is a parameter of type \<open>fault\<close>: \<open>Some e\<close> makes the
  statement return \<open>e\<close> without effect, \<open>None\<close> lets it run.
\<close>

subsection \<open>Errors and faults\<close>

datatype error =
    ErrNoRows                      \<comment> \<open>\<^verbatim>\<open>sql.ErrNoRows\<close>: a single-row query matched nothing\<close>
  | ErrConstraint                  \<comment> \<open>a PRIMARY KEY constraint failed\<close>
  | ErrStorage                     \<comment> \<open>a failure of the storage layer\<close>
  | ErrNoSuchTable string
  | ErrNoSuchColumn string string  \<comment> \<open>table, column\<close>
  | ErrTableExists string
  | Wrap error string              \<comment> \<open>\<^verbatim>\<open>errors.Wrap(err, msg)\<close>\<close>

type_synonym fault = "error option"

type_synonym timestamp = int

type_synonym byte = "8 word"

subsection \<open>Rows\<close>

text \<open>
  Modelled from the spec: the Go struct types \<^verbatim>\<open>Account\<close>, \<^verbatim>\<open>User\<close>, \<^verbatim>\<open>BattleRecord\<close>,
  \<^verbatim>\<open>RankingRecord\<close> and \<^verbatim>\<open>BattleCountResult\<close> are declared outside the source files at
  hand.  Their fields are taken from the columns of the \<^verbatim>\<open>schema\<close> constant (which the
  structs are scanned from and bound to by column name) and from section 3 of the
  specification; a field is named after its column, with a letter for the struct in front.
  Text columns are Go strings (byte strings), integer columns are integers, timestamps
  are points on an integer time line.
\<close>

record Account =
  a_login_key :: string
  a_session_id :: string
  a_last_user_id :: string
  a_created_ip :: string
  a_created :: timestamp
  a_last_login :: timestamp
  a_system :: int

record User =
  u_user_id :: string
  u_login_key :: string
  u_session_id :: string
  u_name :: string
  u_team :: string
  u_battle_count :: int
  u_win_count :: int
  u_lose_count :: int
  u_kill_count :: int
  u_death_count :: int
  u_aeug_battle_count :: int
  u_aeug_win_count :: int
  u_aeug_lose_count :: int
  u_aeug_kill_count :: int
  u_aeug_death_count :: int
  u_titans_battle_count :: int
  u_titans_win_count :: int
  u_titans_lose_count :: int
  u_titans_kill_count :: int
  u_titans_death_count :: int
  u_daily_battle_count :: int
  u_daily_win_count :: int
  u_daily_lose_count :: int
  u_created :: timestamp
  u_system :: int

record BattleRecord =
  b_battle_code :: string
  b_user_id :: string
  b_user_name :: string
  b_pilot_name :: string
  b_players :: int
  b_aggregate :: int
  b_pos :: int
  b_side :: int
  b_round :: int
  b_win :: int
  b_lose :: int
  b_kill :: int
  b_death :: int
  b_frame :: int
  b_result :: string
  b_created :: timestamp
  b_updated :: timestamp
  b_system :: int

record RankingRecord =
  r_rank :: int
  r_user_id :: string
  r_name :: string
  r_team :: string
  r_battle_count :: int
  r_win_count :: int
  r_lose_count :: int
  r_kill_count :: int
  r_death_count :: int
  r_aeug_battle_count :: int
  r_aeug_win_count :: int
  r_aeug_lose_count :: int
  r_aeug_kill_count :: int
  r_aeug_death_count :: int
  r_titans_battle_count :: int
  r_titans_win_count :: int
  r_titans_lose_count :: int
  r_titans_kill_count :: int
  r_titans_death_count :: int

record BattleCountResult =
  Battle :: int
  Win :: int
  Lose :: int
  Kill :: int
  Death :: int

text \<open>The zero values of the structs (\<^verbatim>\<open>&Account{}\<close>, \<^verbatim>\<open>new(BattleRecord)\<close>, ...).\<close>

definition zero_Account :: Account where
  "zero_Account = \<lparr>a_login_key = [], a_session_id = [], a_last_user_id = [],
     a_created_ip = [], a_created = 0, a_last_login = 0, a_system = 0\<rparr>"

definition zero_User :: User where
  "zero_User = \<lparr>u_user_id = [], u_login_key = [], u_session_id = [], u_name = [],
     u_team = [], u_battle_count = 0, u_win_count = 0, u_lose_count = 0, u_kill_count = 0,
     u_death_count = 0, u_aeug_battle_count = 0, u_aeug_win_count = 0,
     u_aeug_lose_count = 0, u_aeug_kill_count = 0, u_aeug_death_count = 0,
     u_titans_battle_count = 0, u_titans_win_count = 0, u_titans_lose_count = 0,
     u_titans_kill_count = 0, u_titans_death_count = 0, u_daily_battle_count = 0,
     u_daily_win_count = 0, u_daily_lose_count = 0, u_created = 0, u_system = 0\<rparr>"

definition zero_BattleRecord :: BattleRecord where
  "zero_BattleRecord = \<lparr>b_battle_code = [], b_user_id = [], b_user_name = [],
     b_pilot_name = [], b_players = 0, b_aggregate = 0, b_pos = 0, b_side = 0, b_round = 0,
     b_win = 0, b_lose = 0, b_kill = 0, b_death = 0, b_frame = 0, b_result = [],
     b_created = 0, b_updated = 0, b_system = 0\<rparr>"

definition zero_BattleCountResult :: BattleCountResult where
  "zero_BattleCountResult = \<lparr>Battle = 0, Win = 0, Lose = 0, Kill = 0, Death = 0\<rparr>"

subsection \<open>The store\<close>

text \<open>
  \<^verbatim>\<open>SQLiteDB\<close> embeds the database handle and the cache; both are pointers, so the value
  receiver of every method still reaches the one shared state.  The three tables are the
  contents behind \<^verbatim>\<open>*sqlx.DB\<close>, \<open>rankingCache\<close> is the map of \<^verbatim>\<open>SQLiteCache\<close>.
\<close>

record SQLiteDB =
  account :: "Account list"
  user :: "User list"
  battle_record :: "BattleRecord list"
  rankingCache :: "string \<rightharpoonup> RankingRecord list"

definition NewSQLiteCache :: "string \<rightharpoonup> RankingRecord list" where
  "NewSQLiteCache = Map.empty"

definition deleteRankingCache :: "SQLiteDB \<Rightarrow> SQLiteDB" where
  "deleteRankingCache db = db\<lparr>rankingCache := Map.empty\<rparr>"

subsection \<open>Accounts\<close>

text \<open>
  \<^verbatim>\<open>INSERT INTO account (login_key, created_ip, created, last_login, system)\<close>: the
  columns left out take the defaults of the schema; the primary key \<^verbatim>\<open>login_key\<close> must
  be new.  \<open>key\<close> is what \<^verbatim>\<open>genLoginKey()\<close> returned.
\<close>

definition RegisterAccountWithLoginKey ::
  "fault \<Rightarrow> timestamp \<Rightarrow> SQLiteDB \<Rightarrow> string \<Rightarrow> string \<Rightarrow> (error + Account) \<times> SQLiteDB" where
  "RegisterAccountWithLoginKey f now db ip loginKey =
     (case f of
        Some e \<Rightarrow> (Inl e, db)
      | None \<Rightarrow>
          if list_ex (\<lambda>a. a_login_key a = loginKey) (account db) then (Inl ErrConstraint, db)
          else (Inr (zero_Account\<lparr>a_login_key := loginKey, a_created_ip := ip\<rparr>),
                db\<lparr>account := account db @
                  [\<lparr>a_login_key = loginKey, a_session_id = [], a_last_user_id = [],
                    a_created_ip = ip, a_created = now, a_last_login = now,
                    a_system = 0\<rparr>]\<rparr>))"

definition RegisterAccount ::
  "fault \<Rightarrow> timestamp \<Rightarrow> string \<Rightarrow> SQLiteDB \<Rightarrow> string \<Rightarrow> (error + Account) \<times> SQLiteDB" where
  "RegisterAccount f now key db ip = RegisterAccountWithLoginKey f now db ip key"

text \<open>\<^verbatim>\<open>QueryRowx(...).StructScan(a)\<close>: the first matching row, \<^verbatim>\<open>sql.ErrNoRows\<close> without one.\<close>

definition GetAccountByLoginKey :: "fault \<Rightarrow> SQLiteDB \<Rightarrow> string \<Rightarrow> error + Account" where
  "GetAccountByLoginKey f db key =
     (case f of
        Some e \<Rightarrow> Inl e
      | None \<Rightarrow>
          (case find (\<lambda>a. a_login_key a = key) (account db) of
             None \<Rightarrow> Inl ErrNoRows
           | Some a \<Rightarrow> Inr a))"

text \<open>
  \<^verbatim>\<open>LoginAccount\<close> writes the fresh session id (\<open>sid\<close>, from \<^verbatim>\<open>genSessionID()\<close>) and the
  time into the caller's struct first, then runs the UPDATE.  The result is the error, the
  caller's struct and the store.
\<close>

definition LoginAccount ::
  "fault \<Rightarrow> timestamp \<Rightarrow> string \<Rightarrow> SQLiteDB \<Rightarrow> Account \<Rightarrow> error option \<times> Account \<times> SQLiteDB" where
  "LoginAccount f now sid db a =
     (let a' = a\<lparr>a_session_id := sid, a_last_login := now\<rparr> in
      case f of
        Some e \<Rightarrow> (Some e, a', db)
      | None \<Rightarrow>
          (None, a',
           db\<lparr>account := map (\<lambda>r. if a_login_key r = a_login_key a'
                                   then r\<lparr>a_session_id := a_session_id a',
                                          a_last_login := a_last_login a'\<rparr>
                                   else r) (account db)\<rparr>))"

subsection \<open>Users\<close>

definition RegisterUser ::
  "fault \<Rightarrow> timestamp \<Rightarrow> string \<Rightarrow> SQLiteDB \<Rightarrow> string \<Rightarrow> (error + User) \<times> SQLiteDB" where
  "RegisterUser f now userID db loginKey =
     (case f of
        Some e \<Rightarrow> (Inl e, db)
      | None \<Rightarrow>
          if list_ex (\<lambda>u. u_user_id u = userID \<and> u_login_key u = loginKey) (user db)
          then (Inl ErrConstraint, db)
          else (Inr (zero_User\<lparr>u_login_key := loginKey, u_user_id := userID,
                               u_created := now\<rparr>),
                db\<lparr>user := user db @
                  [zero_User\<lparr>u_user_id := userID, u_login_key := loginKey,
                             u_name := ''default'', u_created := now\<rparr>]\<rparr>))"

definition GetUserList :: "fault \<Rightarrow> SQLiteDB \<Rightarrow> string \<Rightarrow> error + User list" where
  "GetUserList f db loginKey =
     (case f of
        Some e \<Rightarrow> Inl e
      | None \<Rightarrow> Inr (filter (\<lambda>u. u_login_key u = loginKey) (user db)))"

text \<open>\<^verbatim>\<open>GetUser\<close> returns its struct with the error: it stays the zero value on a failure.\<close>

definition GetUser :: "fault \<Rightarrow> SQLiteDB \<Rightarrow> string \<Rightarrow> User \<times> error option" where
  "GetUser f db userID =
     (case f of
        Some e \<Rightarrow> (zero_User, Some e)
      | None \<Rightarrow>
          (case find (\<lambda>u. u_user_id u = userID) (user db) of
             None \<Rightarrow> (zero_User, Some ErrNoRows)
           | Some u \<Rightarrow> (u, None)))"

text \<open>
  \<^verbatim>\<open>LoginUser\<close> runs three statements on the plain handle, each committed on its own: the
  account lookup (fault \<open>f1\<close>), the UPDATE of the account (\<open>f2\<close>) and the UPDATE of the
  user rows (\<open>f3\<close>).  An error returns at once; nothing undoes an earlier statement.
\<close>

definition LoginUser :: "fault \<Rightarrow> fault \<Rightarrow> fault \<Rightarrow> SQLiteDB \<Rightarrow> User \<Rightarrow> error option \<times> SQLiteDB" where
  "LoginUser f1 f2 f3 db usr =
     (case GetAccountByLoginKey f1 db (u_login_key usr) of
        Inl err \<Rightarrow> (Some err, db)
      | Inr a0 \<Rightarrow>
          (let a = a0\<lparr>a_last_user_id := u_user_id usr\<rparr> in
           case f2 of
             Some err \<Rightarrow> (Some err, db)
           | None \<Rightarrow>
               (let db1 = db\<lparr>account := map (\<lambda>r. if a_login_key r = a_login_key a
                                                    then r\<lparr>a_last_user_id := a_last_user_id a\<rparr>
                                                    else r) (account db)\<rparr> in
                case f3 of
                  Some err \<Rightarrow> (Some err, db1)
                | None \<Rightarrow>
                    (None,
                     db1\<lparr>user := map (\<lambda>r. if u_user_id r = u_user_id usr
                                          then r\<lparr>u_session_id := u_session_id usr\<rparr>
                                          else r) (user db1)\<rparr>))))"

definition UpdateUser :: "fault \<Rightarrow> SQLiteDB \<Rightarrow> User \<Rightarrow> error option \<times> SQLiteDB" where
  "UpdateUser f db usr =
     (case f of
        Some e \<Rightarrow> (Some e, db)
      | None \<Rightarrow>
          (None,
           db\<lparr>user := map (\<lambda>r. if u_user_id r = u_user_id usr
             then r\<lparr>u_name := u_name usr, u_team := u_team usr,
                    u_battle_count := u_battle_count usr, u_win_count := u_win_count usr,
                    u_lose_count := u_lose_count usr, u_kill_count := u_kill_count usr,
                    u_death_count := u_death_count usr,
                    u_aeug_battle_count := u_aeug_battle_count usr,
                    u_aeug_win_count := u_aeug_win_count usr,
                    u_aeug_lose_count := u_aeug_lose_count usr,
                    u_aeug_kill_count := u_aeug_kill_count usr,
                    u_aeug_death_count := u_aeug_death_count usr,
                    u_titans_battle_count := u_titans_battle_count usr,
                    u_titans_win_count := u_titans_win_count usr,
                    u_titans_lose_count := u_titans_lose_count usr,
                    u_titans_kill_count := u_titans_kill_count usr,
                    u_titans_death_count := u_titans_death_count usr,
                    u_daily_battle_count := u_daily_battle_count usr,
                    u_daily_win_count := u_daily_win_count usr,
                    u_daily_lose_count := u_daily_lose_count usr,
                    u_system := u_system usr\<rparr>
             else r) (user db)\<rparr>))"

subsection \<open>Battle records\<close>

text \<open>
  \<^verbatim>\<open>AddBattleRecord\<close> stamps the caller's struct, then inserts eleven of its fields; the
  seven columns left out (\<^verbatim>\<open>round\<close>, \<^verbatim>\<open>win\<close>, \<^verbatim>\<open>lose\<close>, \<^verbatim>\<open>kill\<close>, \<^verbatim>\<open>death\<close>, \<^verbatim>\<open>frame\<close>,
  \<^verbatim>\<open>result\<close>) take the defaults of the schema, 0 and the empty text.
\<close>

definition AddBattleRecord ::
  "fault \<Rightarrow> timestamp \<Rightarrow> SQLiteDB \<Rightarrow> BattleRecord \<Rightarrow> error option \<times> BattleRecord \<times> SQLiteDB" where
  "AddBattleRecord f now db battleRecord =
     (let br = battleRecord\<lparr>b_updated := now, b_created := now\<rparr> in
      case f of
        Some e \<Rightarrow> (Some e, br, db)
      | None \<Rightarrow>
          if list_ex (\<lambda>r. b_battle_code r = b_battle_code br \<and> b_user_id r = b_user_id br)
               (battle_record db)
          then (Some ErrConstraint, br, db)
          else (None, br,
                db\<lparr>battle_record := battle_record db @
                  [\<lparr>b_battle_code = b_battle_code br, b_user_id = b_user_id br,
                    b_user_name = b_user_name br, b_pilot_name = b_pilot_name br,
                    b_players = b_players br, b_aggregate = b_aggregate br,
                    b_pos = b_pos br, b_side = b_side br,
                    b_round = 0, b_win = 0, b_lose = 0, b_kill = 0, b_death = 0,
                    b_frame = 0, b_result = [],
                    b_created = b_created br, b_updated = b_updated br,
                    b_system = b_system br\<rparr>]\<rparr>))"

text \<open>
  The UPDATE of \<^verbatim>\<open>UpdateBattleRecord\<close> rewrites nine columns of the rows the WHERE clause
  selects.  A statement that selects no row is still a successful statement: \<open>err\<close> is
  \<^verbatim>\<open>nil\<close>, and the number of affected rows is not looked at.
\<close>

definition update_battle_record_row :: "BattleRecord \<Rightarrow> BattleRecord \<Rightarrow> BattleRecord" where
  "update_battle_record_row battle r =
     (if b_battle_code r = b_battle_code battle \<and> b_user_id r = b_user_id battle
      then r\<lparr>b_round := b_round battle, b_win := b_win battle, b_lose := b_lose battle,
             b_kill := b_kill battle, b_death := b_death battle, b_frame := b_frame battle,
             b_result := b_result battle, b_updated := b_updated battle,
             b_system := b_system battle\<rparr>
      else r)"

definition UpdateBattleRecord ::
  "fault \<Rightarrow> timestamp \<Rightarrow> SQLiteDB \<Rightarrow> BattleRecord \<Rightarrow> error option \<times> BattleRecord \<times> SQLiteDB" where
  "UpdateBattleRecord f now db battle0 =
     (let battle = battle0\<lparr>b_updated := now\<rparr>;
          (err, db1) =
            (case f of
               Some e \<Rightarrow> (Some e, db)
             | None \<Rightarrow>
                 (None, db\<lparr>battle_record :=
                    map (update_battle_record_row battle) (battle_record db)\<rparr>))
      in if err = None \<and> b_aggregate battle \<noteq> 0
         then (err, battle, deleteRankingCache db1)
         else (err, battle, db1))"

definition GetBattleRecordUser ::
  "fault \<Rightarrow> SQLiteDB \<Rightarrow> string \<Rightarrow> string \<Rightarrow> BattleRecord \<times> error option" where
  "GetBattleRecordUser f db battleCode userID =
     (case f of
        Some e \<Rightarrow> (zero_BattleRecord, Some e)
      | None \<Rightarrow>
          (case find (\<lambda>r. b_battle_code r = battleCode \<and> b_user_id r = userID)
                  (battle_record db) of
             None \<Rightarrow> (zero_BattleRecord, Some ErrNoRows)
           | Some b \<Rightarrow> (b, None)))"

text \<open>
  \<^verbatim>\<open>SELECT TOTAL(round), TOTAL(win), ...\<close>: SQLite's \<^verbatim>\<open>TOTAL\<close> is the sum of the selected
  values and \<^verbatim>\<open>0.0\<close> when no row is selected (never NULL), so the query always yields
  exactly one row to scan.  The sums are taken over the integers of the rows; SQLite
  adds them in floating point, which is exact as long as a sum stays below 2^53, and hands
  the result to \<^verbatim>\<open>Scan\<close>, which fills the five fields of \<^verbatim>\<open>BattleCountResult\<close>.
\<close>

definition TOTAL :: "(BattleRecord \<Rightarrow> int) \<Rightarrow> BattleRecord list \<Rightarrow> int" where
  "TOTAL col rs = foldl (\<lambda>acc r. acc + col r) 0 rs"

definition scan_totals :: "BattleRecord list \<Rightarrow> BattleCountResult" where
  "scan_totals rs = \<lparr>Battle = TOTAL b_round rs, Win = TOTAL b_win rs, Lose = TOTAL b_lose rs,
     Kill = TOTAL b_kill rs, Death = TOTAL b_death rs\<rparr>"


text \<open>\<open>since\<close> is \<^verbatim>\<open>time.Now().AddDate(0, 0, -1)\<close>, worked out by the caller of the model.\<close>

definition CalculateUserDailyBattleCount ::
  "fault \<Rightarrow> timestamp \<Rightarrow> SQLiteDB \<Rightarrow> string \<Rightarrow> BattleCountResult \<times> error option" where
  "CalculateUserDailyBattleCount f since db userID =
     (case f of
        Some e \<Rightarrow> (zero_BattleCountResult, Some e)
      | None \<Rightarrow>
          (scan_totals (filter (\<lambda>r. b_user_id r = userID \<and> b_aggregate r \<noteq> 0 \<and>
                                     b_players r = 4 \<and> b_created r > since)
                          (battle_record db)), None))"

subsection \<open>Leaderboards\<close>

text \<open>\<^verbatim>\<open>fmt.Sprint("win", side)\<close>: the text, then the byte in decimal, with nothing between.\<close>

fun string_of_nat :: "nat \<Rightarrow> string" where
  "string_of_nat n =
     (if n < 10 then [char_of (48 + n)]
      else string_of_nat (n div 10) @ [char_of (48 + n mod 10)])"

declare string_of_nat.simps [simp del]

definition Sprint :: "string \<Rightarrow> byte \<Rightarrow> string" where
  "Sprint s side = s @ string_of_nat (unat side)"

text \<open>
  \<^verbatim>\<open>utf8.ValidString\<close> of the Go library, on the bytes of the string: one-byte characters
  below 0x80; lead bytes 0xC2-0xDF, 0xE0-0xEF and 0xF0-0xF4 with one, two and three
  continuation bytes, the first of them in the range its lead byte accepts.
\<close>

definition locb :: nat where "locb = 0x80"
definition hicb :: nat where "hicb = 0xBF"

definition in_range :: "nat \<Rightarrow> nat \<Rightarrow> nat \<Rightarrow> bool" where
  "in_range lo hi c = (lo \<le> c \<and> c \<le> hi)"

fun valid_bytes :: "nat list \<Rightarrow> bool" where
  "valid_bytes [] = True"
| "valid_bytes (b # bs) =
     (if b < 0x80 then valid_bytes bs
      else if in_range 0xC2 0xDF b then
        (case bs of
           c1 # r \<Rightarrow> in_range locb hicb c1 \<and> valid_bytes r
         | _ \<Rightarrow> False)
      else if in_range 0xE0 0xEF b then
        (case bs of
           c1 # c2 # r \<Rightarrow>
             in_range (if b = 0xE0 then 0xA0 else locb) (if b = 0xED then 0x9F else hicb) c1 \<and>
             in_range locb hicb c2 \<and> valid_bytes r
         | _ \<Rightarrow> False)
      else if in_range 0xF0 0xF4 b then
        (case bs of
           c1 # c2 # c3 # r \<Rightarrow>
             in_range (if b = 0xF0 then 0x90 else locb) (if b = 0xF4 then 0x8F else hicb) c1 \<and>
             in_range locb hicb c2 \<and> in_range locb hicb c3 \<and> valid_bytes r
         | _ \<Rightarrow> False)
      else False)"

definition ValidString :: "string \<Rightarrow> bool" where
  "ValidString s = valid_bytes (map of_char s)"

text \<open>The placeholder is the full-width question mark U+FF1F, the bytes EF BC 9F.\<close>

definition placeholder :: string where
  "placeholder = [char_of (0xEF :: nat), char_of (0xBC :: nat), char_of (0x9F :: nat)]"

definition sanitize :: "RankingRecord \<Rightarrow> RankingRecord" where
  "sanitize u0 =
     (let u1 = (if \<not> ValidString (r_name u0) then u0\<lparr>r_name := placeholder\<rparr> else u0)
      in if \<not> ValidString (r_team u1) then u1\<lparr>r_team := placeholder\<rparr> else u1)"

text \<open>
  The ranking query.  \<^verbatim>\<open>RANK() OVER (ORDER BY target DESC)\<close> gives a row one more than the
  number of rows with a strictly larger \<open>target\<close>, so equal values share a rank and the
  next rank skips.  \<^verbatim>\<open>ORDER BY rank LIMIT 100\<close> sorts by that rank and keeps the first
  hundred rows.  SQL leaves the order among equal ranks open; the model keeps the order of
  the table among them (a stable sort).
\<close>

definition RANK :: "(User \<Rightarrow> int) \<Rightarrow> User list \<Rightarrow> User \<Rightarrow> int" where
  "RANK target us u = 1 + int (length (filter (\<lambda>v. target u < target v) us))"

definition select_ranking :: "(User \<Rightarrow> int) \<Rightarrow> User list \<Rightarrow> User \<Rightarrow> RankingRecord" where
  "select_ranking target us u =
     \<lparr>r_rank = RANK target us u, r_user_id = u_user_id u, r_name = u_name u,
      r_team = u_team u,
      r_battle_count = u_battle_count u, r_win_count = u_win_count u,
      r_lose_count = u_lose_count u, r_kill_count = u_kill_count u,
      r_death_count = u_death_count u,
      r_aeug_battle_count = u_aeug_battle_count u, r_aeug_win_count = u_aeug_win_count u,
      r_aeug_lose_count = u_aeug_lose_count u, r_aeug_kill_count = u_aeug_kill_count u,
      r_aeug_death_count = u_aeug_death_count u,
      r_titans_battle_count = u_titans_battle_count u,
      r_titans_win_count = u_titans_win_count u,
      r_titans_lose_count = u_titans_lose_count u,
      r_titans_kill_count = u_titans_kill_count u,
      r_titans_death_count = u_titans_death_count u\<rparr>"

definition ranking_query :: "(User \<Rightarrow> int) \<Rightarrow> nat \<Rightarrow> User list \<Rightarrow> RankingRecord list" where
  "ranking_query target limit us =
     take limit (sort_key r_rank (map (select_ranking target us) us))"

text \<open>
  The column a leaderboard is ordered by, as the two methods choose it: side 1 and side 2
  have their own counters, every other side value falls through to the overall counter.
\<close>

definition win_target :: "byte \<Rightarrow> User \<Rightarrow> int" where
  "win_target side =
     (if side = 1 then u_aeug_win_count
      else if side = 2 then u_titans_win_count
      else u_win_count)"

definition kill_target :: "byte \<Rightarrow> User \<Rightarrow> int" where
  "kill_target side =
     (if side = 1 then u_aeug_kill_count
      else if side = 2 then u_titans_kill_count
      else u_kill_count)"

text \<open>
  A hit returns the cached slice.  A miss runs the query (\<open>f\<close> is the failure, if any, of
  the query or of scanning one of its rows: both return the error and leave the cache
  alone), replaces ill-formed names, stores the slice under the key and returns it.
\<close>

definition GetWinCountRanking ::
  "fault \<Rightarrow> SQLiteDB \<Rightarrow> byte \<Rightarrow> (error + RankingRecord list) \<times> SQLiteDB" where
  "GetWinCountRanking f db side =
     (let cacheKey = Sprint ''win'' side in
      case rankingCache db cacheKey of
        Some ranking \<Rightarrow> (Inr ranking, db)
      | None \<Rightarrow>
          (case f of
             Some err \<Rightarrow> (Inl err, db)
           | None \<Rightarrow>
               (let ranking = map sanitize (ranking_query (win_target side) 100 (user db))
                in (Inr ranking,
                    db\<lparr>rankingCache := (rankingCache db)(cacheKey \<mapsto> ranking)\<rparr>))))"

definition GetKillCountRanking ::
  "fault \<Rightarrow> SQLiteDB \<Rightarrow> byte \<Rightarrow> (error + RankingRecord list) \<times> SQLiteDB" where
  "GetKillCountRanking f db side =
     (let cacheKey = Sprint ''kill'' side in
      case rankingCache db cacheKey of
        Some ranking \<Rightarrow> (Inr ranking, db)
      | None \<Rightarrow>
          (case f of
             Some err \<Rightarrow> (Inl err, db)
           | None \<Rightarrow>
               (let ranking = map sanitize (ranking_query (kill_target side) 100 (user db))
                in (Inr ranking,
                    db\<lparr>rankingCache := (rankingCache db)(cacheKey \<mapsto> ranking)\<rparr>))))"

subsection \<open>The operations as commands\<close>

text \<open>
  One constructor for each method that works on the tables or the cache, with its
  arguments and the answers of its environment; \<open>exec\<close> is the store after the call.
\<close>

datatype op =
    OpRegisterAccount fault timestamp string string
  | OpRegisterAccountWithLoginKey fault timestamp string string
  | OpGetAccountByLoginKey fault string
  | OpLoginAccount fault timestamp string Account
  | OpRegisterUser fault timestamp string string
  | OpGetUserList fault string
  | OpGetUser fault string
  | OpLoginUser fault fault fault User
  | OpUpdateUser fault User
  | OpAddBattleRecord fault timestamp BattleRecord
  | OpUpdateBattleRecord fault timestamp BattleRecord
  | OpGetBattleRecordUser fault string string
  | OpCalculateUserTotalBattleCount fault string byte
  | OpCalculateUserDailyBattleCount fault timestamp string
  | OpGetWinCountRanking fault byte
  | OpGetKillCountRanking fault byte

fun exec :: "op \<Rightarrow> SQLiteDB \<Rightarrow> SQLiteDB" where
  "exec (OpRegisterAccount f now key ip) db = snd (RegisterAccount f now key db ip)"
| "exec (OpRegisterAccountWithLoginKey f now ip key) db =
     snd (RegisterAccountWithLoginKey f now db ip key)"
| "exec (OpGetAccountByLoginKey f key) db = db"
| "exec (OpLoginAccount f now sid a) db = snd (snd (LoginAccount f now sid db a))"
| "exec (OpRegisterUser f now userID key) db = snd (RegisterUser f now userID db key)"
| "exec (OpGetUserList f key) db = db"
| "exec (OpGetUser f userID) db = db"
| "exec (OpLoginUser f1 f2 f3 usr) db = snd (LoginUser f1 f2 f3 db usr)"
| "exec (OpUpdateUser f usr) db = snd (UpdateUser f db usr)"
| "exec (OpAddBattleRecord f now b) db = snd (snd (AddBattleRecord f now db b))"
| "exec (OpUpdateBattleRecord f now b) db = snd (snd (UpdateBattleRecord f now db b))"
| "exec (OpGetBattleRecordUser f code userID) db = db"
| "exec (OpCalculateUserTotalBattleCount f userID side) db = db"
| "exec (OpCalculateUserDailyBattleCount f since userID) db = db"
| "exec (OpGetWinCountRanking f side) db = snd (GetWinCountRanking f db side)"
| "exec (OpGetKillCountRanking f side) db = snd (GetKillCountRanking f db side)"

fun is_update_result :: "op \<Rightarrow> bool" where
  "is_update_result (OpUpdateBattleRecord f now b) = True"
| "is_update_result _ = False"

text \<open>
  The stores a running server can be in: it starts on any tables with the empty cache of
  \<^verbatim>\<open>NewSQLiteCache\<close>, and moves by the operations.
\<close>

inductive reachable :: "SQLiteDB \<Rightarrow> bool" where
  start: "rankingCache db = NewSQLiteCache \<Longrightarrow> reachable db"
| step: "reachable db \<Longrightarrow> reachable (exec o' db)"

section \<open>Table definitions and the migration\<close>

subsection \<open>The catalogue\<close>

text \<open>
  \<^verbatim>\<open>Init\<close> and \<^verbatim>\<open>Migrate\<close> create, rename, fill and drop tables, so here a table carries
  its definition: the columns in order (name, declared type, default), the primary key,
  and the rows, each a list of values in column order.  A value is NULL, an integer, a
  text or a blob (the schema has no real-valued column; timestamps are kept as the
  driver writes them).  Values are copied as they are: the conversions of SQLite's type
  affinity are not part of the model (between columns of the same declared type they
  leave a stored value as it is).  An index is a name bound to a table and a column.
\<close>

datatype val = VNull | VInt int | VText string | VBlob string

record column =
  c_name :: string
  c_type :: string
  c_default :: val

record table =
  t_columns :: "column list"
  t_pkey :: "string list"
  t_rows :: "val list list"

record database =
  db_tables :: "string \<rightharpoonup> table"
  db_indexes :: "string \<rightharpoonup> string \<times> string"

datatype stmt =
    CreateTableIfNotExists string "column list" "string list"
  | CreateIndexIfNotExists string string string   \<comment> \<open>index, table, column\<close>
  | AlterTableRename string string
  | InsertSelect string "string list" string      \<comment> \<open>\<^verbatim>\<open>INSERT INTO t(cols) SELECT * FROM s\<close>\<close>
  | DropTable string

definition column_names :: "table \<Rightarrow> string list" where
  "column_names t = map c_name (t_columns t)"

text \<open>
  The primary key of these tables is an ordinary unique index: two rows clash when they
  agree on all key columns and none of the key values is NULL.
\<close>

definition key_of :: "table \<Rightarrow> val list \<Rightarrow> val list" where
  "key_of t r =
     map (\<lambda>k. case map_of (zip (column_names t) r) k of None \<Rightarrow> VNull | Some v \<Rightarrow> v)
       (t_pkey t)"

definition pk_unique :: "table \<Rightarrow> val list list \<Rightarrow> bool" where
  "pk_unique t rs =
     (t_pkey t = [] \<or> distinct (filter (\<lambda>k. VNull \<notin> set k) (map (key_of t) rs)))"

text \<open>
  A row of the target of \<^verbatim>\<open>INSERT INTO t(cols) SELECT * FROM s\<close>: a column named in
  \<open>cols\<close> takes the value at that position of the source row, any other column its
  default.
\<close>

definition build_row :: "table \<Rightarrow> string list \<Rightarrow> val list \<Rightarrow> val list" where
  "build_row t cols r =
     map (\<lambda>c. case map_of (zip cols r) (c_name c) of None \<Rightarrow> c_default c | Some v \<Rightarrow> v)
       (t_columns t)"

fun exec_stmt :: "stmt \<Rightarrow> database \<Rightarrow> error + database" where
  "exec_stmt (CreateTableIfNotExists name cols pk) db =
     (if db_tables db name \<noteq> None then Inr db
      else if db_indexes db name \<noteq> None then Inl (ErrTableExists name)
      else Inr (db\<lparr>db_tables := (db_tables db)
                  (name \<mapsto> \<lparr>t_columns = cols, t_pkey = pk, t_rows = []\<rparr>)\<rparr>))"
| "exec_stmt (CreateIndexIfNotExists name tbl c) db =
     (if db_indexes db name \<noteq> None then Inr db
      else if db_tables db name \<noteq> None then Inl (ErrTableExists name)
      else case db_tables db tbl of
             None \<Rightarrow> Inl (ErrNoSuchTable tbl)
           | Some t \<Rightarrow>
               if c \<in> set (column_names t)
               then Inr (db\<lparr>db_indexes := (db_indexes db)(name \<mapsto> (tbl, c))\<rparr>)
               else Inl (ErrNoSuchColumn tbl c))"
| "exec_stmt (AlterTableRename old new) db =
     (case db_tables db old of
        None \<Rightarrow> Inl (ErrNoSuchTable old)
      | Some t \<Rightarrow>
          if db_tables db new \<noteq> None \<or> db_indexes db new \<noteq> None
          then Inl (ErrTableExists new)
          else Inr (db\<lparr>db_tables := (db_tables db)(old := None, new \<mapsto> t),
                       db_indexes := (\<lambda>i. case db_indexes db i of
                                             None \<Rightarrow> None
                                           | Some (tbl, c) \<Rightarrow>
                                               Some (if tbl = old then new else tbl, c))\<rparr>))"
| "exec_stmt (InsertSelect tbl cols src) db =
     (case db_tables db tbl of
        None \<Rightarrow> Inl (ErrNoSuchTable tbl)
      | Some t \<Rightarrow>
          (case find (\<lambda>c. c \<notin> set (column_names t)) cols of
             Some c \<Rightarrow> Inl (ErrNoSuchColumn tbl c)
           | None \<Rightarrow>
               (case db_tables db src of
                  None \<Rightarrow> Inl (ErrNoSuchTable src)
                | Some s \<Rightarrow>
                    (let rs = t_rows t @ map (build_row t cols) (t_rows s) in
                     if pk_unique t rs
                     then Inr (db\<lparr>db_tables := (db_tables db)(tbl \<mapsto> t\<lparr>t_rows := rs\<rparr>)\<rparr>)
                     else Inl ErrConstraint))))"
| "exec_stmt (DropTable name) db =
     (case db_tables db name of
        None \<Rightarrow> Inl (ErrNoSuchTable name)
      | Some t \<Rightarrow>
          Inr (db\<lparr>db_tables := (db_tables db)(name := None),
                  db_indexes := (\<lambda>i. case db_indexes db i of
                                        None \<Rightarrow> None
                                      | Some (tbl, c) \<Rightarrow>
                                          if tbl = name then None else Some (tbl, c))\<rparr>))"

text \<open>
  \<^verbatim>\<open>Exec\<close> of a text of several statements runs them in order and stops at the first that
  fails; the result is the error and the database as the statements so far left it.
\<close>

fun run :: "stmt list \<Rightarrow> database \<Rightarrow> error option \<times> database" where
  "run [] db = (None, db)"
| "run (st # sts) db =
     (case exec_stmt st db of
        Inl e \<Rightarrow> (Some e, db)
      | Inr db' \<Rightarrow> run sts db')"

definition Exec :: "fault \<Rightarrow> stmt list \<Rightarrow> database \<Rightarrow> error option \<times> database" where
  "Exec f sts db = (case f of Some e \<Rightarrow> (Some e, db) | None \<Rightarrow> run sts db)"

text \<open>\<^verbatim>\<open>SELECT * FROM t LIMIT 1\<close> followed by \<^verbatim>\<open>rows.Columns()\<close>: the column names of \<open>t\<close>.\<close>

definition Query :: "fault \<Rightarrow> string \<Rightarrow> database \<Rightarrow> error + string list" where
  "Query f t db =
     (case f of
        Some e \<Rightarrow> Inl e
      | None \<Rightarrow>
          (case db_tables db t of
             None \<Rightarrow> Inl (ErrNoSuchTable t)
           | Some tb \<Rightarrow> Inr (column_names tb)))"

subsection \<open>The constants \<^verbatim>\<open>schema\<close> and \<^verbatim>\<open>indexes\<close>\<close>

definition account_columns :: "column list" where
  "account_columns =
     [\<lparr>c_name = ''login_key'', c_type = ''text'', c_default = VNull\<rparr>,
      \<lparr>c_name = ''session_id'', c_type = ''text'', c_default = VText []\<rparr>,
      \<lparr>c_name = ''last_user_id'', c_type = ''text'', c_default = VText []\<rparr>,
      \<lparr>c_name = ''created_ip'', c_type = ''text'', c_default = VText []\<rparr>,
      \<lparr>c_name = ''created'', c_type = ''timestamp'', c_default = VNull\<rparr>,
      \<lparr>c_name = ''last_login'', c_type = ''timestamp'', c_default = VNull\<rparr>,
      \<lparr>c_name = ''system'', c_type = ''integer'', c_default = VInt 0\<rparr>]"

definition user_columns :: "column list" where
  "user_columns =
     [\<lparr>c_name = ''user_id'', c_type = ''text'', c_default = VNull\<rparr>,
      \<lparr>c_name = ''login_key'', c_type = ''text'', c_default = VNull\<rparr>,
      \<lparr>c_name = ''session_id'', c_type = ''text'', c_default = VText []\<rparr>,
      \<lparr>c_name = ''name'', c_type = ''text'', c_default = VText ''default''\<rparr>,
      \<lparr>c_name = ''team'', c_type = ''text'', c_default = VText []\<rparr>,
      \<lparr>c_name = ''battle_count'', c_type = ''integer'', c_default = VInt 0\<rparr>,
      \<lparr>c_name = ''win_count'', c_type = ''integer'', c_default = VInt 0\<rparr>,
      \<lparr>c_name = ''lose_count'', c_type = ''integer'', c_default = VInt 0\<rparr>,
      \<lparr>c_name = ''kill_count'', c_type = ''integer'', c_default = VInt 0\<rparr>,
      \<lparr>c_name = ''death_count'', c_type = ''integer'', c_default = VInt 0\<rparr>,
      \<lparr>c_name = ''aeug_battle_count'', c_type = ''integer'', c_default = VInt 0\<rparr>,
      \<lparr>c_name = ''aeug_win_count'', c_type = ''integer'', c_default = VInt 0\<rparr>,
      \<lparr>c_name = ''aeug_lose_count'', c_type = ''integer'', c_default = VInt 0\<rparr>,
      \<lparr>c_name = ''aeug_kill_count'', c_type = ''integer'', c_default = VInt 0\<rparr>,
      \<lparr>c_name = ''aeug_death_count'', c_type = ''integer'', c_default = VInt 0\<rparr>,
      \<lparr>c_name = ''titans_battle_count'', c_type = ''integer'', c_default = VInt 0\<rparr>,
      \<lparr>c_name = ''titans_win_count'', c_type = ''integer'', c_default = VInt 0\<rparr>,
      \<lparr>c_name = ''titans_lose_count'', c_type = ''integer'', c_default = VInt 0\<rparr>,
      \<lparr>c_name = ''titans_kill_count'', c_type = ''integer'', c_default = VInt 0\<rparr>,
      \<lparr>c_name = ''titans_death_count'', c_type = ''integer'', c_default = VInt 0\<rparr>,
      \<lparr>c_name = ''daily_battle_count'', c_type = ''integer'', c_default = VInt 0\<rparr>,
      \<lparr>c_name = ''daily_win_count'', c_type = ''integer'', c_default = VInt 0\<rparr>,
      \<lparr>c_name = ''daily_lose_count'', c_type = ''integer'', c_default = VInt 0\<rparr>,
      \<lparr>c_name = ''created'', c_type = ''timestamp'', c_default = VNull\<rparr>,
      \<lparr>c_name = ''system'', c_type = ''integer'', c_default = VInt 0\<rparr>]"

definition battle_record_columns :: "column list" where
  "battle_record_columns =
     [\<lparr>c_name = ''battle_code'', c_type = ''text'', c_default = VNull\<rparr>,
      \<lparr>c_name = ''user_id'', c_type = ''text'', c_default = VNull\<rparr>,
      \<lparr>c_name = ''user_name'', c_type = ''text'', c_default = VNull\<rparr>,
      \<lparr>c_name = ''pilot_name'', c_type = ''text'', c_default = VNull\<rparr>,
      \<lparr>c_name = ''players'', c_type = ''integer'', c_default = VInt 0\<rparr>,
      \<lparr>c_name = ''aggregate'', c_type = ''integer'', c_default = VInt 0\<rparr>,
      \<lparr>c_name = ''pos'', c_type = ''integer'', c_default = VInt 0\<rparr>,
      \<lparr>c_name = ''side'', c_type = ''integer'', c_default = VInt 0\<rparr>,
      \<lparr>c_name = ''round'', c_type = ''integer'', c_default = VInt 0\<rparr>,
      \<lparr>c_name = ''win'', c_type = ''integer'', c_default = VInt 0\<rparr>,
      \<lparr>c_name = ''lose'', c_type = ''integer'', c_default = VInt 0\<rparr>,
      \<lparr>c_name = ''kill'', c_type = ''integer'', c_default = VInt 0\<rparr>,
      \<lparr>c_name = ''death'', c_type = ''integer'', c_default = VInt 0\<rparr>,
      \<lparr>c_name = ''frame'', c_type = ''integer'', c_default = VInt 0\<rparr>,
      \<lparr>c_name = ''result'', c_type = ''text'', c_default = VText []\<rparr>,
      \<lparr>c_name = ''created'', c_type = ''timestamp'', c_default = VNull\<rparr>,
      \<lparr>c_name = ''updated'', c_type = ''timestamp'', c_default = VNull\<rparr>,
      \<lparr>c_name = ''system'', c_type = ''integer'', c_default = VInt 0\<rparr>]"

definition schema :: "stmt list" where
  "schema =
     [CreateTableIfNotExists ''account'' account_columns [''login_key''],
      CreateTableIfNotExists ''user'' user_columns [''user_id'', ''login_key''],
      CreateTableIfNotExists ''battle_record'' battle_record_columns
        [''battle_code'', ''user_id'']]"

definition indexes :: "stmt list" where
  "indexes =
     [CreateIndexIfNotExists ''BATTLE_RECORD_USER_ID'' ''battle_record'' ''user_id'',
      CreateIndexIfNotExists ''BATTLE_RECORD_PLAYERS'' ''battle_record'' ''players'',
      CreateIndexIfNotExists ''BATTLE_RECORD_CREATED'' ''battle_record'' ''created'',
      CreateIndexIfNotExists ''BATTLE_RECORD_AGGRIGATE'' ''battle_record'' ''aggregate'']"

subsection \<open>\<^verbatim>\<open>Init\<close> and \<^verbatim>\<open>Migrate\<close>\<close>

definition Init :: "fault \<Rightarrow> database \<Rightarrow> error option \<times> database" where
  "Init f db = Exec f (schema @ indexes) db"

text \<open>
  \<^verbatim>\<open>Migrate\<close> runs inside one transaction: \<open>db\<close> is the database when it begins, the
  statements work on the transaction's copy, every error path calls \<^verbatim>\<open>tx.Rollback()\<close>
  and so returns \<open>db\<close> itself, and only the commit installs the copy.  The statements are
  numbered in the order of the source; \<open>io n\<close> is the fault of statement \<open>n\<close>
  (0 \<^verbatim>\<open>BeginTx\<close>, 1 the first \<^verbatim>\<open>Exec\<close>, 2-4 the renames, 5 the second \<^verbatim>\<open>Exec\<close>, then for
  each table its \<^verbatim>\<open>Query\<close>, \<^verbatim>\<open>Columns\<close>, INSERT and DROP, and 18 the commit).
\<close>

fun rename_loop :: "(nat \<Rightarrow> fault) \<Rightarrow> nat \<Rightarrow> string list \<Rightarrow> database \<Rightarrow> error + database" where
  "rename_loop io i [] tx = Inr tx"
| "rename_loop io i (tbl # rest) tx =
     (let tmp = tbl @ ''_tmp'' in
      case Exec (io i) [AlterTableRename tbl tmp] tx of
        (Some err, _) \<Rightarrow> Inl (Wrap err ''ALTER TABLE failed'')
      | (None, tx1) \<Rightarrow> rename_loop io (i + 1) rest tx1)"

fun copy_loop :: "(nat \<Rightarrow> fault) \<Rightarrow> nat \<Rightarrow> string list \<Rightarrow> database \<Rightarrow> error + database" where
  "copy_loop io i [] tx = Inr tx"
| "copy_loop io i (tbl # rest) tx =
     (let tmp = tbl @ ''_tmp'' in
      case Query (io i) tmp tx of
        Inl err \<Rightarrow> Inl (Wrap err ''SELECT failed'')
      | Inr columns \<Rightarrow>
          (case io (i + 1) of
             Some err \<Rightarrow> Inl (Wrap err ''Columns() failed'')
           | None \<Rightarrow>
               (case Exec (io (i + 2)) [InsertSelect tbl columns tmp] tx of
                  (Some err, _) \<Rightarrow> Inl (Wrap err ''INSERT failed'')
                | (None, tx1) \<Rightarrow>
                    (case Exec (io (i + 3)) [DropTable tmp] tx1 of
                       (Some err, _) \<Rightarrow> Inl (Wrap err ''DROP TABLE failed'')
                     | (None, tx2) \<Rightarrow> copy_loop io (i + 4) rest tx2))))"

definition Migrate :: "(nat \<Rightarrow> fault) \<Rightarrow> database \<Rightarrow> error option \<times> database" where
  "Migrate io db =
     (let tables = [''account'', ''user'', ''battle_record''] in
      case io 0 of
        Some err \<Rightarrow> (Some (Wrap err ''Begin failed''), db)
      | None \<Rightarrow>
          (case Exec (io 1) schema db of
             (Some err, _) \<Rightarrow> (Some (Wrap err ''Begin failed''), db)
           | (None, tx1) \<Rightarrow>
               (case rename_loop io 2 tables tx1 of
                  Inl err \<Rightarrow> (Some err, db)
                | Inr tx2 \<Rightarrow>
                    (case Exec (io 5) (schema @ indexes) tx2 of
                       (Some err, _) \<Rightarrow> (Some (Wrap err ''failed to create new tables''), db)
                     | (None, tx3) \<Rightarrow>
                         (case copy_loop io 6 tables tx3 of
                            Inl err \<Rightarrow> (Some err, db)
                          | Inr tx4 \<Rightarrow>
                              (case io 18 of
                                 Some err \<Rightarrow> (Some err, db)
                               | None \<Rightarrow> (None, tx4)))))))"

section \<open>What the specification says, and sample stores\<close>



text \<open>\<open>same_key b r\<close>: row \<open>r\<close> is the row of the pair (battle code, user id) of \<open>b\<close>.\<close>

definition same_key :: "BattleRecord \<Rightarrow> BattleRecord \<Rightarrow> bool" where
  "same_key b r = (b_battle_code r = b_battle_code b \<and> b_user_id r = b_user_id b)"

text \<open>The store before anything is written, and the battle record of the scenario of
  section 8 of the specification.\<close>

definition empty_store :: SQLiteDB where
  "empty_store = \<lparr>account = [], user = [], battle_record = [], rankingCache = Map.empty\<rparr>"

definition record_B1_U1 :: BattleRecord where
  "record_B1_U1 = zero_BattleRecord\<lparr>b_battle_code := ''B1'', b_user_id := ''U1'',
     b_players := 4, b_aggregate := 1, b_side := 1\<rparr>"

definition store_B1_U1 :: SQLiteDB where
  "store_B1_U1 = empty_store\<lparr>battle_record := [record_B1_U1\<lparr>b_win := 1\<rparr>]\<rparr>"

text \<open>
  The columns \<^verbatim>\<open>UpdateBattleRecord\<close> must leave alone: who fought where, and when the
  row was made.
\<close>

definition same_identity :: "BattleRecord \<Rightarrow> BattleRecord \<Rightarrow> bool" where
  "same_identity r r' =
     (b_battle_code r' = b_battle_code r \<and> b_user_id r' = b_user_id r \<and>
      b_user_name r' = b_user_name r \<and> b_pilot_name r' = b_pilot_name r \<and>
      b_players r' = b_players r \<and> b_aggregate r' = b_aggregate r \<and>
      b_pos r' = b_pos r \<and> b_side r' = b_side r \<and> b_created r' = b_created r)"

text \<open>
  The two writes of \<^verbatim>\<open>login(user)\<close> in the words of the specification: the owning
  account's \<^verbatim>\<open>last_user_id\<close>, and the user row's \<^verbatim>\<open>session_id\<close>.
\<close>

definition account_write :: "User \<Rightarrow> SQLiteDB \<Rightarrow> SQLiteDB" where
  "account_write usr db =
     db\<lparr>account := map (\<lambda>r. if a_login_key r = u_login_key usr
                             then r\<lparr>a_last_user_id := u_user_id usr\<rparr> else r) (account db)\<rparr>"

definition user_write :: "User \<Rightarrow> SQLiteDB \<Rightarrow> SQLiteDB" where
  "user_write usr db =
     db\<lparr>user := map (\<lambda>r. if u_user_id r = u_user_id usr
                          then r\<lparr>u_session_id := u_session_id usr\<rparr> else r) (user db)\<rparr>"

text \<open>An account with one user, as the scenario of section 8 registers them.\<close>

definition account_A :: Account where
  "account_A = zero_Account\<lparr>a_login_key := ''A'', a_created_ip := ''1.2.3.4''\<rparr>"

definition user_U1 :: User where
  "user_U1 = zero_User\<lparr>u_user_id := ''U1'', u_login_key := ''A'', u_name := ''default''\<rparr>"

definition store_A_U1 :: SQLiteDB where
  "store_A_U1 = empty_store\<lparr>account := [account_A], user := [user_U1]\<rparr>"

text \<open>
  The counter of a ranking row that a leaderboard for \<open>side\<close> is about, and what the
  specification asks of a leaderboard: at most 100 entries, in descending order of the
  counter, equal counters with equal ranks.
\<close>

definition win_counter :: "byte \<Rightarrow> RankingRecord \<Rightarrow> int" where
  "win_counter side =
     (if side = 1 then r_aeug_win_count
      else if side = 2 then r_titans_win_count
      else r_win_count)"

definition kill_counter :: "byte \<Rightarrow> RankingRecord \<Rightarrow> int" where
  "kill_counter side =
     (if side = 1 then r_aeug_kill_count
      else if side = 2 then r_titans_kill_count
      else r_kill_count)"

definition leaderboard_ok :: "(RankingRecord \<Rightarrow> int) \<Rightarrow> RankingRecord list \<Rightarrow> bool" where
  "leaderboard_ok counter rs =
     (length rs \<le> 100 \<and>
      sorted_wrt (\<lambda>a b. counter b \<le> counter a) rs \<and>
      list_all (\<lambda>a. list_all (\<lambda>b. counter a = counter b \<longrightarrow> r_rank a = r_rank b) rs) rs)"

definition cache_ok :: "SQLiteDB \<Rightarrow> bool" where
  "cache_ok db =
     (\<forall>side rs.
        (rankingCache db (Sprint ''win'' side) = Some rs \<longrightarrow> leaderboard_ok (win_counter side) rs) \<and>
        (rankingCache db (Sprint ''kill'' side) = Some rs \<longrightarrow> leaderboard_ok (kill_counter side) rs))"

text \<open>Reading a decimal numeral back, to tell the cache keys apart.\<close>

definition nat_of_digits :: "string \<Rightarrow> nat" where
  "nat_of_digits s = foldl (\<lambda>a c. 10 * a + (of_char c - 48)) 0 s"

text \<open>A ranking row that stems from a row \<open>u\<close> of the users \<open>us\<close>.\<close>

definition from_user :: "(User \<Rightarrow> int) \<Rightarrow> (RankingRecord \<Rightarrow> int) \<Rightarrow> User list \<Rightarrow> RankingRecord \<Rightarrow> bool" where
  "from_user target counter us r = (\<exists>u \<in> set us. r_rank r = RANK target us u \<and> counter r = target u)"

text \<open>Three users, two of them tied, one with a name that is not UTF-8.\<close>

definition three_users :: SQLiteDB where
  "three_users = empty_store\<lparr>user :=
     [zero_User\<lparr>u_user_id := ''U1'', u_name := ''a'', u_win_count := 5, u_aeug_win_count := 1, u_kill_count := 2\<rparr>,
      zero_User\<lparr>u_user_id := ''U2'', u_name := ''b'', u_win_count := 3, u_aeug_win_count := 3, u_kill_count := 9\<rparr>,
      zero_User\<lparr>u_user_id := ''U3'', u_name := [char_of (0xFF :: nat)], u_win_count := 5, u_aeug_win_count := 1, u_kill_count := 2\<rparr>]\<rparr>"

text \<open>
  A database at the current schema: its tables are the three of \<^verbatim>\<open>schema\<close>, each with
  the columns and the primary key \<^verbatim>\<open>schema\<close> gives it, every row as long as the column
  list and the key unique; its indexes, if any, bear names of \<^verbatim>\<open>indexes\<close>.  This is
  what \<^verbatim>\<open>Init\<close> and a successful \<^verbatim>\<open>Migrate\<close> leave behind.
\<close>

definition index_names :: "string list" where
  "index_names = concat (map (\<lambda>st. case st of CreateIndexIfNotExists n t c \<Rightarrow> [n] | _ \<Rightarrow> []) indexes)"

fun defined_as :: "database \<Rightarrow> stmt \<Rightarrow> bool" where
  "defined_as db (CreateTableIfNotExists name cols pk) =
     (case db_tables db name of
        None \<Rightarrow> False
      | Some t \<Rightarrow> t_columns t = cols \<and> t_pkey t = pk \<and>
                  list_all (\<lambda>r. length r = length cols) (t_rows t) \<and>
                  pk_unique t (t_rows t))"
| "defined_as db _ = True"

definition at_current_schema :: "database \<Rightarrow> bool" where
  "at_current_schema db =
     (dom (db_tables db) = {''account'', ''user'', ''battle_record''} \<and>
      list_all (defined_as db) schema \<and>
      dom (db_indexes db) \<subseteq> set index_names)"

text \<open>The environment in which no statement fails for an outside reason.\<close>

definition no_faults :: "nat \<Rightarrow> fault" where
  "no_faults n = None"

text \<open>\<open>has_tables db T\<close>: the tables of \<open>db\<close> are \<open>T\<close>, the index names are known ones.\<close>

definition has_tables :: "database \<Rightarrow> (string \<rightharpoonup> table) \<Rightarrow> bool" where
  "has_tables db T = (db_tables db = T \<and> dom (db_indexes db) \<subseteq> set index_names)"

text \<open>
  The database \<^verbatim>\<open>Init\<close> makes out of nothing, with two accounts in it.
\<close>

definition fresh_database :: database where
  "fresh_database = \<lparr>db_tables = Map.empty, db_indexes = Map.empty\<rparr>"

definition sample_database :: database where
  "sample_database =
     (let db = snd (Init None fresh_database) in
      db\<lparr>db_tables := (db_tables db)(''account'' \<mapsto>
        \<lparr>t_columns = account_columns, t_pkey = [''login_key''],
         t_rows = [[VText ''A'', VText ''S'', VText ''U1'', VText ''1.2.3.4'', VText ''t0'',
                    VText ''t1'', VInt 0],
                   [VText ''B'', VText [], VText [], VText ''5.6.7.8'', VText ''t2'',
                    VText ''t2'', VInt 0]]\<rparr>)\<rparr>)"





section \<open>Properties of the store\<close>

subsection \<open>Totals\<close>




subsection \<open>The cache and the operations\<close>

lemma exec_cache_mono:
  "\<not> is_update_result o' \<Longrightarrow> rankingCache db \<subseteq>\<^sub>m rankingCache (exec o' db)"
proof (cases o')
  case (OpGetWinCountRanking f side)
  then show ?thesis
    by (auto simp: GetWinCountRanking_def Let_def map_le_def split: option.splits)
next
  case (OpGetKillCountRanking f side)
  then show ?thesis
    by (auto simp: GetKillCountRanking_def Let_def map_le_def split: option.splits)
qed (auto simp: RegisterAccount_def RegisterAccountWithLoginKey_def LoginAccount_def
      RegisterUser_def LoginUser_def UpdateUser_def AddBattleRecord_def Let_def
      GetAccountByLoginKey_def
      split: option.splits sum.splits)

text \<open>
  Claim C2.  An \<^verbatim>\<open>UpdateBattleRecord\<close> that succeeds on a record with aggregate not 0
  leaves the ranking cache empty; one on a record with aggregate 0, or one that fails,
  leaves the cache as it was; and every other operation keeps each cached entry (the
  cache before is a part of the cache after).  \<^verbatim>\<open>Init\<close> and \<^verbatim>\<open>Migrate\<close> are not among
  the commands: they use the database handle only, and their model has no cache to
  touch.
\<close>

theorem update_result_invalidates_cache:
  "(fst (UpdateBattleRecord f now db b) = None \<and> b_aggregate b \<noteq> 0 \<longrightarrow>
      rankingCache (snd (snd (UpdateBattleRecord f now db b))) = Map.empty) \<and>
   (b_aggregate b = 0 \<or> fst (UpdateBattleRecord f now db b) \<noteq> None \<longrightarrow>
      rankingCache (snd (snd (UpdateBattleRecord f now db b))) = rankingCache db) \<and>
   (\<not> is_update_result o' \<longrightarrow> rankingCache db \<subseteq>\<^sub>m rankingCache (exec o' db))"
  using exec_cache_mono [of o' db]
  by (auto simp: UpdateBattleRecord_def deleteRankingCache_def Let_def split: option.splits)

theorem update_result_invalidates_cache_witness:
  "fst (UpdateBattleRecord None 7 (store_B1_U1\<lparr>rankingCache := [''win0'' \<mapsto> []]\<rparr>)
          record_B1_U1) = None \<and>
   b_aggregate record_B1_U1 \<noteq> 0 \<and>
   rankingCache (snd (snd (UpdateBattleRecord None 7
     (store_B1_U1\<lparr>rankingCache := [''win0'' \<mapsto> []]\<rparr>) record_B1_U1))) = Map.empty \<and>
   b_aggregate (record_B1_U1\<lparr>b_aggregate := 0\<rparr>) = 0 \<and>
   rankingCache (snd (snd (UpdateBattleRecord None 7
     (store_B1_U1\<lparr>rankingCache := [''win0'' \<mapsto> []]\<rparr>)
     (record_B1_U1\<lparr>b_aggregate := 0\<rparr>)))) = [''win0'' \<mapsto> []] \<and>
   \<not> is_update_result (OpGetWinCountRanking None 0) \<and>
   rankingCache (store_B1_U1\<lparr>rankingCache := [''win0'' \<mapsto> []]\<rparr>) \<subseteq>\<^sub>m
     rankingCache (exec (OpGetWinCountRanking None 0)
       (store_B1_U1\<lparr>rankingCache := [''win0'' \<mapsto> []]\<rparr>))"
  using update_result_invalidates_cache
    [of None 7 "store_B1_U1\<lparr>rankingCache := [''win0'' \<mapsto> []]\<rparr>" record_B1_U1
        "OpGetWinCountRanking None 0"]
    update_result_invalidates_cache
    [of None 7 "store_B1_U1\<lparr>rankingCache := [''win0'' \<mapsto> []]\<rparr>"
        "record_B1_U1\<lparr>b_aggregate := 0\<rparr>" "OpGetWinCountRanking None 0"]
  by (simp add: UpdateBattleRecord_def deleteRankingCache_def Let_def record_B1_U1_def
      zero_BattleRecord_def)

subsection \<open>Updating a battle record\<close>

text \<open>
  Claim C3, as the specification states it, fails: with no row for (B1, U1) in the store,
  the lookup reports \<^verbatim>\<open>sql.ErrNoRows\<close>, yet \<^verbatim>\<open>UpdateBattleRecord\<close> returns no error.
\<close>

theorem update_result_missing_row_counterexample:
  "GetBattleRecordUser None empty_store ''B1'' ''U1'' = (zero_BattleRecord, Some ErrNoRows) \<and>
   fst (UpdateBattleRecord None 7 empty_store record_B1_U1) = None"
  by (simp add: GetBattleRecordUser_def UpdateBattleRecord_def empty_store_def record_B1_U1_def
      zero_BattleRecord_def)

text \<open>
  Claim C3, amended.  For a pair (battle code, user id) that has no row,
  \<^verbatim>\<open>UpdateBattleRecord\<close> (its statement not failing) returns no error and changes no table:
  the UPDATE selects nothing, and the number of affected rows is never looked at.  The
  cache is still emptied when the record's aggregate is not 0.
\<close>

theorem update_result_missing_row:
  "\<not> list_ex (same_key b) (battle_record db) \<Longrightarrow>
   UpdateBattleRecord None now db b =
     (None, b\<lparr>b_updated := now\<rparr>,
      if b_aggregate b \<noteq> 0 then db\<lparr>rankingCache := Map.empty\<rparr> else db)"
proof -
  assume a: "\<not> list_ex (same_key b) (battle_record db)"
  have "map (update_battle_record_row (b\<lparr>b_updated := now\<rparr>)) rs = rs"
    if "\<not> list_ex (same_key b) rs" for rs
    using that by (induction rs) (auto simp: update_battle_record_row_def same_key_def)
  with a show ?thesis
    by (simp add: UpdateBattleRecord_def deleteRankingCache_def Let_def)
qed

theorem update_result_missing_row_witness:
  "\<not> list_ex (same_key record_B1_U1) (battle_record empty_store) \<and>
   UpdateBattleRecord None 7 empty_store record_B1_U1 =
     (None, record_B1_U1\<lparr>b_updated := 7\<rparr>, empty_store)"
  using update_result_missing_row [of record_B1_U1 empty_store 7]
  by (simp add: empty_store_def record_B1_U1_def)

text \<open>
  Claim C9.  \<^verbatim>\<open>UpdateBattleRecord\<close> leaves the account and user tables alone and maps the
  battle records row by row, in place: every row keeps battle code, user id, user name,
  pilot name, players, aggregate, pos, side and created; a row with another key is
  unchanged; the row of the key, when the statement succeeds, is the old row with round,
  win, lose, kill, death, frame, result, updated and system replaced.
\<close>

theorem update_result_in_place:
  "UpdateBattleRecord f now db b = (err, b', db') \<Longrightarrow>
   account db' = account db \<and> user db' = user db \<and>
   list_all2 (\<lambda>r r'. same_identity r r' \<and>
                      (\<not> same_key b r \<longrightarrow> r' = r) \<and>
                      (same_key b r \<and> err = None \<longrightarrow>
                         r' = r\<lparr>b_round := b_round b, b_win := b_win b, b_lose := b_lose b,
                                b_kill := b_kill b, b_death := b_death b, b_frame := b_frame b,
                                b_result := b_result b, b_updated := now, b_system := b_system b\<rparr>))
     (battle_record db) (battle_record db')"
proof -
  assume u: "UpdateBattleRecord f now db b = (err, b', db')"
  show ?thesis
  proof (cases f)
    case (Some e)
    with u have "db' = db" "err = Some e"
      by (auto simp: UpdateBattleRecord_def Let_def)
    then show ?thesis
      by (simp add: list_all2_conv_all_nth same_identity_def)
  next
    case None
    with u have t: "account db' = account db" "user db' = user db"
       "battle_record db' = map (update_battle_record_row (b\<lparr>b_updated := now\<rparr>)) (battle_record db)"
      by (auto simp: UpdateBattleRecord_def Let_def deleteRankingCache_def split: if_splits)
    show ?thesis
      unfolding t
      by (simp add: list_all2_conv_all_nth same_identity_def same_key_def
          update_battle_record_row_def)
  qed
qed

theorem update_result_in_place_witness:
  "UpdateBattleRecord None 9 store_B1_U1 (record_B1_U1\<lparr>b_round := 2, b_kill := 3\<rparr>) =
     (None, record_B1_U1\<lparr>b_round := 2, b_kill := 3, b_updated := 9\<rparr>,
      empty_store\<lparr>battle_record := [record_B1_U1\<lparr>b_round := 2, b_kill := 3, b_updated := 9\<rparr>]\<rparr>) \<and>
   same_key (record_B1_U1\<lparr>b_round := 2, b_kill := 3\<rparr>) (record_B1_U1\<lparr>b_win := 1\<rparr>) \<and>
   list_all2 same_identity (battle_record store_B1_U1)
     [record_B1_U1\<lparr>b_round := 2, b_kill := 3, b_updated := 9\<rparr>]"
proof -
  have u: "UpdateBattleRecord None 9 store_B1_U1 (record_B1_U1\<lparr>b_round := 2, b_kill := 3\<rparr>) =
     (None, record_B1_U1\<lparr>b_round := 2, b_kill := 3, b_updated := 9\<rparr>,
      empty_store\<lparr>battle_record := [record_B1_U1\<lparr>b_round := 2, b_kill := 3, b_updated := 9\<rparr>]\<rparr>)"
    by (simp add: UpdateBattleRecord_def update_battle_record_row_def deleteRankingCache_def
        Let_def store_B1_U1_def empty_store_def record_B1_U1_def zero_BattleRecord_def)
  have k: "same_key (record_B1_U1\<lparr>b_round := 2, b_kill := 3\<rparr>) (record_B1_U1\<lparr>b_win := 1\<rparr>)"
    by (simp add: same_key_def)
  from update_result_in_place [OF u]
  have "list_all2 same_identity (battle_record store_B1_U1)
          [record_B1_U1\<lparr>b_round := 2, b_kill := 3, b_updated := 9\<rparr>]"
    by (simp add: store_B1_U1_def empty_store_def)
  with u k show ?thesis by simp
qed

subsection \<open>Adding a battle record\<close>

lemma find_append_new:
  "\<not> list_ex P xs \<Longrightarrow> P y \<Longrightarrow> find P (xs @ [y]) = Some y"
  by (induction xs) auto

text \<open>
  Claim C8.  After an \<^verbatim>\<open>AddBattleRecord\<close> that returned no error, \<^verbatim>\<open>GetBattleRecordUser\<close>
  on the record's battle code and user id finds a row, with round, win, lose, kill, death
  and frame 0, an empty result, and created equal to updated.
\<close>

theorem add_then_get:
  "fst (AddBattleRecord f now db battleRecord) = None \<Longrightarrow>
   (let db' = snd (snd (AddBattleRecord f now db battleRecord));
        (b, err) = GetBattleRecordUser None db' (b_battle_code battleRecord) (b_user_id battleRecord)
    in err = None \<and> b_round b = 0 \<and> b_win b = 0 \<and> b_lose b = 0 \<and> b_kill b = 0 \<and>
       b_death b = 0 \<and> b_frame b = 0 \<and> b_result b = [] \<and> b_created b = b_updated b \<and>
       b_battle_code b = b_battle_code battleRecord \<and> b_user_id b = b_user_id battleRecord)"
proof -
  assume ok: "fst (AddBattleRecord f now db battleRecord) = None"
  let ?P = "\<lambda>r. b_battle_code r = b_battle_code battleRecord \<and> b_user_id r = b_user_id battleRecord"
  from ok have f: "f = None" and fresh: "\<not> list_ex ?P (battle_record db)"
    by (auto simp: AddBattleRecord_def Let_def split: option.splits if_splits)
  show ?thesis
    using f fresh
    by (simp add: AddBattleRecord_def GetBattleRecordUser_def Let_def find_append_new)
qed

theorem add_then_get_witness:
  "fst (AddBattleRecord None 7 empty_store record_B1_U1) = None \<and>
   GetBattleRecordUser None (snd (snd (AddBattleRecord None 7 empty_store record_B1_U1))) ''B1'' ''U1'' =
     (record_B1_U1\<lparr>b_created := 7, b_updated := 7\<rparr>, None)"
  using add_then_get [of None 7 empty_store record_B1_U1]
  by (simp add: AddBattleRecord_def GetBattleRecordUser_def empty_store_def record_B1_U1_def zero_BattleRecord_def Let_def)

subsection \<open>Logging a user in\<close>

text \<open>
  Claim C4, as the specification states it, fails.  With account A and its user U1 in
  the store, a login of U1 whose second UPDATE fails returns the error with the first
  write applied (the account's \<^verbatim>\<open>last_user_id\<close> is now U1) and the second not (the user
  row still has no session id).
\<close>

theorem login_user_not_atomic_counterexample:
  "LoginUser None None (Some ErrStorage) store_A_U1 (user_U1\<lparr>u_session_id := ''S1''\<rparr>) =
     (Some ErrStorage, store_A_U1\<lparr>account := [account_A\<lparr>a_last_user_id := ''U1''\<rparr>]\<rparr>) \<and>
   account_A\<lparr>a_last_user_id := ''U1''\<rparr> \<noteq> account_A \<and>
   user_write (user_U1\<lparr>u_session_id := ''S1''\<rparr>) store_A_U1 \<noteq> store_A_U1"
  by (simp add: LoginUser_def GetAccountByLoginKey_def store_A_U1_def empty_store_def
      account_A_def user_U1_def zero_Account_def zero_User_def Let_def user_write_def)

lemma find_key: "find P xs = Some x \<Longrightarrow> P x"
  by (induction xs) (auto split: if_splits)

text \<open>
  Claim C4, amended.  \<^verbatim>\<open>LoginUser\<close> issues the two writes as separate statements, the
  account first: when the account lookup or the account UPDATE fails, neither write is
  applied; when only the user UPDATE fails, the error is returned with the account write
  applied; when nothing fails, both writes are applied.
\<close>

theorem login_user_writes:
  "LoginUser f1 f2 f3 db usr =
     (case GetAccountByLoginKey f1 db (u_login_key usr) of
        Inl e \<Rightarrow> (Some e, db)
      | Inr a \<Rightarrow>
          (case f2 of
             Some e \<Rightarrow> (Some e, db)
           | None \<Rightarrow>
               (case f3 of
                  Some e \<Rightarrow> (Some e, account_write usr db)
                | None \<Rightarrow> (None, user_write usr (account_write usr db)))))"
proof (cases "GetAccountByLoginKey f1 db (u_login_key usr)")
  case (Inl e)
  then show ?thesis by (simp add: LoginUser_def)
next
  case (Inr a)
  then have "a_login_key a = u_login_key usr"
    by (auto simp: GetAccountByLoginKey_def split: option.splits dest: find_key)
  with Inr show ?thesis
    by (simp add: LoginUser_def Let_def account_write_def user_write_def split: option.splits)
qed

theorem login_user_writes_witness:
  "LoginUser None None None store_A_U1 (user_U1\<lparr>u_session_id := ''S1''\<rparr>) =
     (None, empty_store\<lparr>account := [account_A\<lparr>a_last_user_id := ''U1''\<rparr>],
                         user := [user_U1\<lparr>u_session_id := ''S1''\<rparr>]\<rparr>)"
  using login_user_writes [of None None None store_A_U1 "user_U1\<lparr>u_session_id := ''S1''\<rparr>"]
  by (simp add: GetAccountByLoginKey_def account_write_def user_write_def store_A_U1_def
      empty_store_def account_A_def user_U1_def zero_Account_def zero_User_def)

subsection \<open>Cache keys\<close>

lemma nat_of_digits_string_of_nat: "nat_of_digits (string_of_nat n) = n"
proof (induction n rule: string_of_nat.induct)
  case (1 n)
  show ?case
  proof (cases "n < 10")
    case True
    then show ?thesis
      by (subst string_of_nat.simps) (simp add: nat_of_digits_def)
  next
    case False
    have "n mod 10 < 10" by simp
    then have d: "(48 + n mod 10) mod 256 = 48 + n mod 10" by simp
    from False 1 have ih: "nat_of_digits (string_of_nat (n div 10)) = n div 10" by simp
    have "nat_of_digits (string_of_nat n) =
            10 * nat_of_digits (string_of_nat (n div 10)) + (of_char (char_of (48 + n mod 10) :: char) - 48)"
      using False by (subst string_of_nat.simps) (simp add: nat_of_digits_def)
    also have "\<dots> = 10 * (n div 10) + n mod 10"
      using d by (simp add: ih)
    finally show ?thesis by simp
  qed
qed

lemma string_of_nat_inj: "string_of_nat m = string_of_nat n \<Longrightarrow> m = n"
  by (metis nat_of_digits_string_of_nat)

lemma Sprint_inj: "Sprint s a = Sprint s b \<Longrightarrow> a = b"
proof -
  assume "Sprint s a = Sprint s b"
  then have "string_of_nat (unat a) = string_of_nat (unat b)"
    by (simp add: Sprint_def)
  then have "unat a = unat b"
    by (rule string_of_nat_inj)
  then show "a = b"
    by (simp add: word_unat_eq_iff)
qed

lemma Sprint_win_kill: "Sprint ''win'' a \<noteq> Sprint ''kill'' b"
  by (simp add: Sprint_def)


subsection \<open>Ranks\<close>

lemma filter_length_mono:
  "(\<And>x. x \<in> set xs \<Longrightarrow> P x \<Longrightarrow> Q x) \<Longrightarrow> length (filter P xs) \<le> length (filter Q xs)"
proof (induction xs)
  case Nil
  then show ?case by simp
next
  case (Cons x xs)
  then have "length (filter P xs) \<le> length (filter Q xs)" by simp
  with Cons.prems [of x] show ?case by auto
qed

lemma filter_length_strict:
  "(\<And>x. x \<in> set xs \<Longrightarrow> P x \<Longrightarrow> Q x) \<Longrightarrow> y \<in> set xs \<Longrightarrow> Q y \<Longrightarrow> \<not> P y \<Longrightarrow>
   length (filter P xs) < length (filter Q xs)"
proof (induction xs)
  case Nil
  then show ?case by simp
next
  case (Cons x xs)
  have le: "length (filter P xs) \<le> length (filter Q xs)"
    using Cons.prems(1) by (intro filter_length_mono) simp
  show ?case
  proof (cases "y = x")
    case True
    with Cons.prems le show ?thesis by simp
  next
    case False
    with Cons.prems have "y \<in> set xs" by simp
    with Cons have "length (filter P xs) < length (filter Q xs)" by simp
    with Cons.prems(1) [of x] show ?thesis by auto
  qed
qed

lemma RANK_antimono:
  "u2 \<in> set us \<Longrightarrow> target u1 < target u2 \<Longrightarrow> RANK target us u2 < RANK target us u1"
  using filter_length_strict [of us "\<lambda>v. target u2 < target v" "\<lambda>v. target u1 < target v" u2]
  by (simp add: RANK_def)

lemma RANK_le_imp_target_ge:
  "u2 \<in> set us \<Longrightarrow> RANK target us u1 \<le> RANK target us u2 \<Longrightarrow> target u2 \<le> target u1"
proof (rule ccontr)
  assume m: "u2 \<in> set us" and le: "RANK target us u1 \<le> RANK target us u2"
    and "\<not> target u2 \<le> target u1"
  then have "target u1 < target u2" by simp
  with m have "RANK target us u2 < RANK target us u1" by (rule RANK_antimono)
  with le show False by simp
qed

lemma RANK_tie: "target u1 = target u2 \<Longrightarrow> RANK target us u1 = RANK target us u2"
  by (simp add: RANK_def)

lemma leaderboard_okI:
  assumes len: "length rs \<le> 100"
    and srt: "sorted (map r_rank rs)"
    and src: "\<And>r. r \<in> set rs \<Longrightarrow> from_user target counter us r"
  shows "leaderboard_ok counter rs"
proof -
  have mono: "counter b \<le> counter a" if "a \<in> set rs" "b \<in> set rs" "r_rank a \<le> r_rank b" for a b
  proof -
    from src that obtain u v where u: "u \<in> set us" "r_rank a = RANK target us u" "counter a = target u"
      and v: "v \<in> set us" "r_rank b = RANK target us v" "counter b = target v"
      unfolding from_user_def by blast
    with that(3) show ?thesis
      using RANK_le_imp_target_ge [of v us target u] by simp
  qed
  have tie: "r_rank a = r_rank b" if "a \<in> set rs" "b \<in> set rs" "counter a = counter b" for a b
  proof -
    from src that obtain u v where u: "u \<in> set us" "r_rank a = RANK target us u" "counter a = target u"
      and v: "v \<in> set us" "r_rank b = RANK target us v" "counter b = target v"
      unfolding from_user_def by blast
    with that(3) show ?thesis
      using RANK_tie [of target u v us] by simp
  qed
  have "sorted_wrt (\<lambda>a b. r_rank a \<le> r_rank b) rs"
    using srt by (simp add: sorted_wrt_map)
  then have "sorted_wrt (\<lambda>a b. counter b \<le> counter a) rs"
    by (rule sorted_wrt_mono_rel [rotated]) (use mono in blast)
  moreover have "list_all (\<lambda>a. list_all (\<lambda>b. counter a = counter b \<longrightarrow> r_rank a = r_rank b) rs) rs"
    unfolding list_all_iff using tie by blast
  ultimately show ?thesis
    using len by (simp add: leaderboard_ok_def)
qed


lemma sanitize_keeps:
  "r_rank (sanitize r) = r_rank r"
  "win_counter side (sanitize r) = win_counter side r"
  "kill_counter side (sanitize r) = kill_counter side r"
  by (simp_all add: sanitize_def Let_def win_counter_def kill_counter_def)

lemma select_ranking_fields:
  "r_rank (select_ranking target us u) = RANK target us u"
  "win_counter side (select_ranking target us u) = win_target side u"
  "kill_counter side (select_ranking target us u) = kill_target side u"
  by (simp_all add: select_ranking_def win_counter_def kill_counter_def win_target_def
      kill_target_def)

lemma ranking_query_ok:
  assumes c: "\<And>r. counter (sanitize r) = counter r"
             "\<And>u. counter (select_ranking target us u) = target u"
  shows "leaderboard_ok counter (map sanitize (ranking_query target 100 us))"
proof (rule leaderboard_okI [where target = target and us = us])
  show "length (map sanitize (ranking_query target 100 us)) \<le> 100"
    by (simp add: ranking_query_def)
next
  have "map r_rank (map sanitize (ranking_query target 100 us)) =
          take 100 (map r_rank (sort_key r_rank (map (select_ranking target us) us)))"
    by (simp add: ranking_query_def sanitize_keeps(1) take_map)
  moreover have "sorted (map r_rank (sort_key r_rank (map (select_ranking target us) us)))"
    by (rule sorted_sort_key)
  ultimately show "sorted (map r_rank (map sanitize (ranking_query target 100 us)))"
    by (simp add: sorted_wrt_take)
next
  fix r
  assume "r \<in> set (map sanitize (ranking_query target 100 us))"
  then obtain q where q: "q \<in> set (ranking_query target 100 us)" and r: "r = sanitize q"
    by auto
  from q have "q \<in> set (sort_key r_rank (map (select_ranking target us) us))"
    unfolding ranking_query_def by (rule in_set_takeD)
  then obtain u where u: "u \<in> set us" and qu: "q = select_ranking target us u"
    by auto
  show "from_user target counter us r"
    unfolding from_user_def
    using u r qu c by (auto simp: sanitize_keeps(1) select_ranking_fields(1))
qed

lemma win_ranking_ok:
  "leaderboard_ok (win_counter side) (map sanitize (ranking_query (win_target side) 100 us))"
  by (rule ranking_query_ok) (simp_all add: sanitize_keeps select_ranking_fields)

lemma kill_ranking_ok:
  "leaderboard_ok (kill_counter side) (map sanitize (ranking_query (kill_target side) 100 us))"
  by (rule ranking_query_ok) (simp_all add: sanitize_keeps select_ranking_fields)

lemma cache_ok_empty: "rankingCache db = Map.empty \<Longrightarrow> cache_ok db"
  by (simp add: cache_ok_def)

lemma cache_ok_same: "rankingCache db' = rankingCache db \<Longrightarrow> cache_ok db \<Longrightarrow> cache_ok db'"
  by (simp add: cache_ok_def)

lemma GetWinCountRanking_cache_ok: "cache_ok db \<Longrightarrow> cache_ok (snd (GetWinCountRanking f db side))"
  using win_ranking_ok [of side "user db"]
  by (auto simp: GetWinCountRanking_def Let_def cache_ok_def Sprint_win_kill [symmetric]
      dest: Sprint_inj split: option.splits)

lemma GetKillCountRanking_cache_ok: "cache_ok db \<Longrightarrow> cache_ok (snd (GetKillCountRanking f db side))"
  using kill_ranking_ok [of side "user db"]
  by (auto simp: GetKillCountRanking_def Let_def cache_ok_def Sprint_win_kill
      dest: Sprint_inj split: option.splits)

lemma UpdateBattleRecord_cache_ok:
  "cache_ok db \<Longrightarrow> cache_ok (snd (snd (UpdateBattleRecord f now db b)))"
  by (auto simp: UpdateBattleRecord_def Let_def deleteRankingCache_def cache_ok_def
      split: option.splits)

lemma exec_cache_ok: "cache_ok db \<Longrightarrow> cache_ok (exec o' db)"
proof (cases o')
  case (OpGetWinCountRanking f side)
  then show "cache_ok db \<Longrightarrow> ?thesis" by (simp add: GetWinCountRanking_cache_ok)
next
  case (OpGetKillCountRanking f side)
  then show "cache_ok db \<Longrightarrow> ?thesis" by (simp add: GetKillCountRanking_cache_ok)
next
  case (OpUpdateBattleRecord f now b)
  then show "cache_ok db \<Longrightarrow> ?thesis" by (simp add: UpdateBattleRecord_cache_ok)
qed (auto simp: RegisterAccount_def RegisterAccountWithLoginKey_def LoginAccount_def
      RegisterUser_def LoginUser_def UpdateUser_def AddBattleRecord_def Let_def
      GetAccountByLoginKey_def cache_ok_def
      split: option.splits sum.splits)

lemma reachable_cache_ok: "reachable db \<Longrightarrow> cache_ok db"
  by (induction rule: reachable.induct) (simp_all add: cache_ok_empty NewSQLiteCache_def exec_cache_ok)

text \<open>
  Claim C7.  In every store the server can reach, a leaderboard that
  \<^verbatim>\<open>GetWinCountRanking\<close> or \<^verbatim>\<open>GetKillCountRanking\<close> returns, from the cache or from the
  query, has at most 100 entries, is in descending order of the counter of the asked
  side, and gives entries with equal counters equal ranks.
\<close>

theorem leaderboards_ranked:
  "reachable db \<Longrightarrow>
   (fst (GetWinCountRanking f db side) = Inr rs \<longrightarrow> leaderboard_ok (win_counter side) rs) \<and>
   (fst (GetKillCountRanking f db side) = Inr rs' \<longrightarrow> leaderboard_ok (kill_counter side) rs')"
proof -
  assume "reachable db"
  then have ok: "cache_ok db" by (rule reachable_cache_ok)
  have w: "leaderboard_ok (win_counter side) rs" if "fst (GetWinCountRanking f db side) = Inr rs"
    using that ok win_ranking_ok [of side "user db"]
    by (auto simp: GetWinCountRanking_def Let_def cache_ok_def split: option.splits)
  have k: "leaderboard_ok (kill_counter side) rs'" if "fst (GetKillCountRanking f db side) = Inr rs'"
    using that ok kill_ranking_ok [of side "user db"]
    by (auto simp: GetKillCountRanking_def Let_def cache_ok_def split: option.splits)
  from w k show ?thesis by blast
qed

theorem leaderboards_ranked_witness:
  "reachable three_users \<and>
   fst (GetWinCountRanking None three_users 1) =
     Inr (projr (fst (GetWinCountRanking None three_users 1))) \<and>
   leaderboard_ok (win_counter 1) (projr (fst (GetWinCountRanking None three_users 1))) \<and>
   map (\<lambda>r. (r_rank r, r_user_id r, r_name r, r_aeug_win_count r))
     (projr (fst (GetWinCountRanking None three_users 1))) =
     [(1, ''U2'', ''b'', 3), (2, ''U1'', ''a'', 1), (2, ''U3'', placeholder, 1)] \<and>
   fst (GetKillCountRanking None three_users 0) =
     Inr (projr (fst (GetKillCountRanking None three_users 0))) \<and>
   leaderboard_ok (kill_counter 0) (projr (fst (GetKillCountRanking None three_users 0))) \<and>
   map (\<lambda>r. (r_rank r, r_user_id r, r_kill_count r))
     (projr (fst (GetKillCountRanking None three_users 0))) =
     [(1, ''U2'', 9), (2, ''U1'', 2), (2, ''U3'', 2)]"
proof -
  have r: "reachable three_users"
    by (rule reachable.start) (simp add: three_users_def empty_store_def NewSQLiteCache_def)
  have e: "fst (GetWinCountRanking None three_users 1) =
             Inr (projr (fst (GetWinCountRanking None three_users 1)))"
    by (simp add: GetWinCountRanking_def three_users_def empty_store_def Let_def)
  have e': "fst (GetKillCountRanking None three_users 0) =
             Inr (projr (fst (GetKillCountRanking None three_users 0)))"
    by (simp add: GetKillCountRanking_def three_users_def empty_store_def Let_def)
  have v: "map (\<lambda>r. (r_rank r, r_user_id r, r_name r, r_aeug_win_count r))
             (projr (fst (GetWinCountRanking None three_users 1))) =
           [(1, ''U2'', ''b'', 3), (2, ''U1'', ''a'', 1), (2, ''U3'', placeholder, 1)]"
    by code_simp
  have v': "map (\<lambda>r. (r_rank r, r_user_id r, r_kill_count r))
              (projr (fst (GetKillCountRanking None three_users 0))) =
            [(1, ''U2'', 9), (2, ''U1'', 2), (2, ''U3'', 2)]"
    by code_simp
  note t = leaderboards_ranked [OF r, of None 1
      "projr (fst (GetWinCountRanking None three_users 1))"
      "projr (fst (GetKillCountRanking None three_users 1))"]
  note t' = leaderboards_ranked [OF r, of None 0
      "projr (fst (GetWinCountRanking None three_users 0))"
      "projr (fst (GetKillCountRanking None three_users 0))"]
  from t e
  have w: "leaderboard_ok (win_counter 1) (projr (fst (GetWinCountRanking None three_users 1)))"
    by blast
  from t' e'
  have k: "leaderboard_ok (kill_counter 0) (projr (fst (GetKillCountRanking None three_users 0)))"
    by blast
  from r e v w e' k v' show ?thesis by blast
qed



section \<open>Properties of the migration\<close>

subsection \<open>Single statements\<close>

lemma index_names_eq:
  "index_names = [''BATTLE_RECORD_USER_ID'', ''BATTLE_RECORD_PLAYERS'', ''BATTLE_RECORD_CREATED'', ''BATTLE_RECORD_AGGRIGATE'']"
  by (simp add: index_names_def indexes_def)

lemma map_of_zip_nth:
  "length xs = length ys \<Longrightarrow> distinct xs \<Longrightarrow> i < length ys \<Longrightarrow> map_of (zip xs ys) (xs ! i) = Some (ys ! i)"
proof (induction xs ys arbitrary: i rule: list_induct2)
  case Nil
  then show ?case by simp
next
  case (Cons x xs y ys)
  then show ?case by (cases i) auto
qed

lemma build_row_same:
  assumes "distinct (column_names t)" "length r = length (t_columns t)"
  shows "build_row t (column_names t) r = r"
proof (rule nth_equalityI)
  show "length (build_row t (column_names t) r) = length r"
    using assms by (simp add: build_row_def)
next
  fix i assume "i < length (build_row t (column_names t) r)"
  then have i: "i < length (t_columns t)" by (simp add: build_row_def)
  have "map_of (zip (column_names t) r) (column_names t ! i) = Some (r ! i)"
    using assms i by (intro map_of_zip_nth) (simp_all add: column_names_def)
  with i show "build_row t (column_names t) r ! i = r ! i"
    by (simp add: build_row_def column_names_def)
qed

lemma build_rows_same:
  assumes "distinct (column_names t)" "list_all (\<lambda>r. length r = length (t_columns t)) rs"
  shows "map (build_row t (column_names t)) rs = rs"
  using assms by (induction rs) (simp_all add: build_row_same)

lemma distinct_columns:
  "distinct (map c_name account_columns)"
  "distinct (map c_name user_columns)"
  "distinct (map c_name battle_record_columns)"
  by (simp_all add: account_columns_def user_columns_def battle_record_columns_def)


lemma has_tables_index_None: "has_tables db T \<Longrightarrow> n \<notin> set index_names \<Longrightarrow> db_indexes db n = None"
  by (auto simp: has_tables_def)

lemma create_existing:
  "has_tables db T \<Longrightarrow> T name = Some t \<Longrightarrow> exec_stmt (CreateTableIfNotExists name cols pk) db = Inr db"
  by (simp add: has_tables_def)

lemma create_new:
  assumes "has_tables db T" "T name = None" "name \<notin> set index_names"
  shows "\<exists>db'. exec_stmt (CreateTableIfNotExists name cols pk) db = Inr db' \<and>
               has_tables db' (T(name \<mapsto> \<lparr>t_columns = cols, t_pkey = pk, t_rows = []\<rparr>))"
  using assms has_tables_index_None [OF assms(1,3)] by (simp add: has_tables_def)

lemma create_index:
  assumes "has_tables db T" "n \<in> set index_names" "T n = None" "T tbl = Some t"
    "c \<in> set (column_names t)"
  shows "\<exists>db'. exec_stmt (CreateIndexIfNotExists n tbl c) db = Inr db' \<and> has_tables db' T"
  using assms by (auto simp: has_tables_def)

lemma rename_table:
  assumes "has_tables db T" "T old = Some t" "T new = None" "new \<notin> set index_names"
  shows "\<exists>db'. exec_stmt (AlterTableRename old new) db = Inr db' \<and>
               has_tables db' (T(old := None, new \<mapsto> t))"
proof -
  have "dom (\<lambda>i. case db_indexes db i of None \<Rightarrow> None
                  | Some (tbl, c) \<Rightarrow> Some (if tbl = old then new else tbl, c)) = dom (db_indexes db)"
    by (auto split: option.splits)
  with assms has_tables_index_None [OF assms(1,4)] show ?thesis
    by (simp add: has_tables_def)
qed

lemma drop_table:
  assumes "has_tables db T" "T name = Some t"
  shows "\<exists>db'. exec_stmt (DropTable name) db = Inr db' \<and> has_tables db' (T(name := None))"
proof -
  have "dom (\<lambda>i. case db_indexes db i of None \<Rightarrow> None
                  | Some (tbl, c) \<Rightarrow> if tbl = name then None else Some (tbl, c)) \<subseteq> dom (db_indexes db)"
    by (auto split: option.splits if_splits)
  with assms show ?thesis
    by (auto simp: has_tables_def)
qed

lemma pk_unique_cong:
  "t_columns t = t_columns s \<Longrightarrow> t_pkey t = t_pkey s \<Longrightarrow> pk_unique t rs = pk_unique s rs"
proof -
  assume a: "t_columns t = t_columns s" "t_pkey t = t_pkey s"
  then have "key_of t = key_of s"
    by (intro ext) (simp add: key_of_def column_names_def)
  with a show ?thesis
    by (simp add: pk_unique_def)
qed

lemma find_None_iff: "find P xs = None \<longleftrightarrow> (\<forall>x \<in> set xs. \<not> P x)"
  by (induction xs) auto

lemma insert_select_same:
  assumes st: "has_tables db T" and t: "T tbl = Some t" "t_rows t = []"
    and s: "T tmp = Some s" "t_columns s = t_columns t" "t_pkey s = t_pkey t"
    and wf: "distinct (column_names t)" "list_all (\<lambda>r. length r = length (t_columns s)) (t_rows s)"
      "pk_unique s (t_rows s)"
  shows "\<exists>db'. exec_stmt (InsertSelect tbl (column_names s) tmp) db = Inr db' \<and>
               has_tables db' (T(tbl \<mapsto> s))"
proof -
  have cn: "column_names s = column_names t"
    using s by (simp add: column_names_def)
  have f: "find (\<lambda>c. c \<notin> set (column_names t)) (column_names t) = None"
    by (simp add: find_None_iff)
  have rows: "map (build_row t (column_names t)) (t_rows s) = t_rows s"
    using wf s by (intro build_rows_same) simp_all
  have pk: "pk_unique t (t_rows s)"
    using wf(3) s pk_unique_cong [of t s] by simp
  have eq: "t\<lparr>t_rows := t_rows s\<rparr> = s"
    using s by simp
  from st t s show ?thesis
    by (simp add: has_tables_def cn f rows pk eq)
qed

lemma copy_step:
  assumes st: "has_tables db T" and t: "T tbl = Some t" "t_rows t = []"
    and s: "T (tbl @ ''_tmp'') = Some s" "t_columns s = t_columns t" "t_pkey s = t_pkey t"
    and wf: "distinct (column_names t)" "list_all (\<lambda>r. length r = length (t_columns s)) (t_rows s)"
      "pk_unique s (t_rows s)"
  shows "\<exists>db'. copy_loop no_faults i (tbl # rest) db = copy_loop no_faults (i + 4) rest db' \<and>
               has_tables db' (T(tbl \<mapsto> s, tbl @ ''_tmp'' := None))"
proof -
  from insert_select_same [OF st t s wf] obtain db1 where
    1: "exec_stmt (InsertSelect tbl (column_names s) (tbl @ ''_tmp'')) db = Inr db1"
    and st1: "has_tables db1 (T(tbl \<mapsto> s))" by blast
  have "(T(tbl \<mapsto> s)) (tbl @ ''_tmp'') = Some s"
    using s by simp
  from drop_table [OF st1 this] obtain db2 where
    2: "exec_stmt (DropTable (tbl @ ''_tmp'')) db1 = Inr db2"
    and st2: "has_tables db2 (T(tbl \<mapsto> s, tbl @ ''_tmp'' := None))" by blast
  have q: "Query None (tbl @ ''_tmp'') db = Inr (column_names s)"
    using st s by (simp add: Query_def has_tables_def)
  have "copy_loop no_faults i (tbl # rest) db = copy_loop no_faults (i + 4) rest db2"
    by (simp add: q no_faults_def Exec_def 1 2 Let_def del: exec_stmt.simps)
  with st2 show ?thesis by blast
qed


lemma defined_as_tables:
  "db_tables db' = db_tables db \<Longrightarrow> defined_as db' st = defined_as db st"
  by (cases st) simp_all

lemma at_current_schema_tables:
  "at_current_schema db \<Longrightarrow> db_tables db' = db_tables db \<Longrightarrow>
   dom (db_indexes db') \<subseteq> set index_names \<Longrightarrow> at_current_schema db'"
  using defined_as_tables [of db' db]
  by (simp add: at_current_schema_def list_all_iff)

lemma run_append:
  "run (xs @ ys) db = (case run xs db of (None, db') \<Rightarrow> run ys db' | (Some e, db') \<Rightarrow> (Some e, db'))"
  by (induction xs arbitrary: db) (auto split: sum.splits)

lemma run_indexes:
  assumes st: "has_tables db T" and t: "T ''battle_record'' = Some t"
    "t_columns t = battle_record_columns"
    and free: "T ''BATTLE_RECORD_USER_ID'' = None" "T ''BATTLE_RECORD_PLAYERS'' = None"
      "T ''BATTLE_RECORD_CREATED'' = None" "T ''BATTLE_RECORD_AGGRIGATE'' = None"
  shows "\<exists>db'. run indexes db = (None, db') \<and> has_tables db' T"
proof -
  have cols: "''user_id'' \<in> set (column_names t)" "''players'' \<in> set (column_names t)"
    "''created'' \<in> set (column_names t)" "''aggregate'' \<in> set (column_names t)"
    using t(2) by (simp_all add: column_names_def battle_record_columns_def)
  have nm: "''BATTLE_RECORD_USER_ID'' \<in> set index_names"
    "''BATTLE_RECORD_PLAYERS'' \<in> set index_names"
    "''BATTLE_RECORD_CREATED'' \<in> set index_names"
    "''BATTLE_RECORD_AGGRIGATE'' \<in> set index_names"
    by (simp_all add: index_names_eq)
  from create_index [OF st nm(1) free(1) t(1) cols(1)] obtain db1 where
    1: "exec_stmt (CreateIndexIfNotExists ''BATTLE_RECORD_USER_ID'' ''battle_record''
          ''user_id'') db = Inr db1" and st1: "has_tables db1 T" by blast
  from create_index [OF st1 nm(2) free(2) t(1) cols(2)] obtain db2 where
    2: "exec_stmt (CreateIndexIfNotExists ''BATTLE_RECORD_PLAYERS'' ''battle_record''
          ''players'') db1 = Inr db2" and st2: "has_tables db2 T" by blast
  from create_index [OF st2 nm(3) free(3) t(1) cols(3)] obtain db3 where
    3: "exec_stmt (CreateIndexIfNotExists ''BATTLE_RECORD_CREATED'' ''battle_record''
          ''created'') db2 = Inr db3" and st3: "has_tables db3 T" by blast
  from create_index [OF st3 nm(4) free(4) t(1) cols(4)] obtain db4 where
    4: "exec_stmt (CreateIndexIfNotExists ''BATTLE_RECORD_AGGRIGATE'' ''battle_record''
          ''aggregate'') db3 = Inr db4" and st4: "has_tables db4 T" by blast
  have "run indexes db = (None, db4)"
    by (simp add: indexes_def 1 2 3 4 del: exec_stmt.simps)
  with st4 show ?thesis by blast
qed


subsection \<open>Migrating a database that is at the current schema\<close>

lemma migrate_current:
  assumes cur: "at_current_schema db"
  shows "\<exists>db'. Migrate no_faults db = (None, db') \<and> db_tables db' = db_tables db \<and>
               at_current_schema db'"
proof -
  define T where "T = db_tables db"
  have st0: "has_tables db T"
    using cur by (simp add: has_tables_def T_def at_current_schema_def)
  have absent: "T n = None" if "n \<notin> {''account'', ''user'', ''battle_record''}" for n
    using cur that unfolding at_current_schema_def T_def by blast
  from cur obtain ta tu tb where
    ta: "T ''account'' = Some ta" "t_columns ta = account_columns" "t_pkey ta = [''login_key'']"
      "list_all (\<lambda>r. length r = length (t_columns ta)) (t_rows ta)" "pk_unique ta (t_rows ta)"
    and tu: "T ''user'' = Some tu" "t_columns tu = user_columns"
      "t_pkey tu = [''user_id'', ''login_key'']"
      "list_all (\<lambda>r. length r = length (t_columns tu)) (t_rows tu)" "pk_unique tu (t_rows tu)"
    and tb: "T ''battle_record'' = Some tb" "t_columns tb = battle_record_columns"
      "t_pkey tb = [''battle_code'', ''user_id'']"
      "list_all (\<lambda>r. length r = length (t_columns tb)) (t_rows tb)" "pk_unique tb (t_rows tb)"
    by (auto simp: at_current_schema_def schema_def T_def split: option.splits)
  note nm = index_names_eq
  have tmp: "T ''account_tmp'' = None" "T ''user_tmp'' = None" "T ''battle_record_tmp'' = None"
    by (simp_all add: absent)
  have idx: "T ''BATTLE_RECORD_USER_ID'' = None" "T ''BATTLE_RECORD_PLAYERS'' = None"
    "T ''BATTLE_RECORD_CREATED'' = None" "T ''BATTLE_RECORD_AGGRIGATE'' = None"
    by (simp_all add: absent)
  \<comment> \<open>the first Exec: all three tables exist\<close>
  have p1: "Exec None schema db = (None, db)"
    using create_existing [OF st0 ta(1)] create_existing [OF st0 tu(1)]
      create_existing [OF st0 tb(1)]
    by (simp add: Exec_def no_faults_def schema_def del: exec_stmt.simps)
  \<comment> \<open>the renames\<close>
  let ?T1 = "T(''account'' := None, ''account_tmp'' \<mapsto> ta)"
  let ?T2 = "?T1(''user'' := None, ''user_tmp'' \<mapsto> tu)"
  let ?T3 = "?T2(''battle_record'' := None, ''battle_record_tmp'' \<mapsto> tb)"
  have "\<exists>db'. exec_stmt (AlterTableRename ''account'' ''account_tmp'') db = Inr db' \<and>
          has_tables db' ?T1"
    by (rule rename_table [OF st0 ta(1)]) (simp_all add: tmp nm)
  then obtain db1 where
    r1: "exec_stmt (AlterTableRename ''account'' ''account_tmp'') db = Inr db1"
    and st1: "has_tables db1 ?T1" by blast
  have "\<exists>db'. exec_stmt (AlterTableRename ''user'' ''user_tmp'') db1 = Inr db' \<and>
          has_tables db' ?T2"
    by (rule rename_table [OF st1]) (simp_all add: tmp tu nm)
  then obtain db2 where r2: "exec_stmt (AlterTableRename ''user'' ''user_tmp'') db1 = Inr db2"
    and st2: "has_tables db2 ?T2" by blast
  have "\<exists>db'. exec_stmt (AlterTableRename ''battle_record'' ''battle_record_tmp'') db2 = Inr db' \<and>
          has_tables db' ?T3"
    by (rule rename_table [OF st2]) (simp_all add: tmp tb nm)
  then obtain db3 where
    r3: "exec_stmt (AlterTableRename ''battle_record'' ''battle_record_tmp'') db2 = Inr db3"
    and st3: "has_tables db3 ?T3" by blast
  have p2: "rename_loop no_faults 2 [''account'', ''user'', ''battle_record''] db = Inr db3"
    by (simp add: Exec_def no_faults_def r1 r2 r3 del: exec_stmt.simps)
  \<comment> \<open>the second Exec: three new tables, then the indexes\<close>
  let ?na = "\<lparr>t_columns = account_columns, t_pkey = [''login_key''], t_rows = []\<rparr>"
  let ?nu = "\<lparr>t_columns = user_columns, t_pkey = [''user_id'', ''login_key''], t_rows = []\<rparr>"
  let ?nb = "\<lparr>t_columns = battle_record_columns, t_pkey = [''battle_code'', ''user_id''],
              t_rows = []\<rparr>"
  let ?T4 = "?T3(''account'' \<mapsto> ?na)"
  let ?T5 = "?T4(''user'' \<mapsto> ?nu)"
  let ?T6 = "?T5(''battle_record'' \<mapsto> ?nb)"
  have "\<exists>db'. exec_stmt (CreateTableIfNotExists ''account'' account_columns [''login_key''])
          db3 = Inr db' \<and> has_tables db' ?T4"
    by (rule create_new [OF st3]) (simp_all add: nm)
  then obtain db4 where c4: "exec_stmt (CreateTableIfNotExists ''account'' account_columns
      [''login_key'']) db3 = Inr db4" and st4: "has_tables db4 ?T4" by blast
  have "\<exists>db'. exec_stmt (CreateTableIfNotExists ''user'' user_columns
          [''user_id'', ''login_key'']) db4 = Inr db' \<and> has_tables db' ?T5"
    by (rule create_new [OF st4]) (simp_all add: nm)
  then obtain db5 where c5: "exec_stmt (CreateTableIfNotExists ''user'' user_columns
      [''user_id'', ''login_key'']) db4 = Inr db5" and st5: "has_tables db5 ?T5" by blast
  have "\<exists>db'. exec_stmt (CreateTableIfNotExists ''battle_record'' battle_record_columns
          [''battle_code'', ''user_id'']) db5 = Inr db' \<and> has_tables db' ?T6"
    by (rule create_new [OF st5]) (simp_all add: nm)
  then obtain db6 where c6: "exec_stmt (CreateTableIfNotExists ''battle_record''
      battle_record_columns [''battle_code'', ''user_id'']) db5 = Inr db6"
    and st6: "has_tables db6 ?T6" by blast
  have t6: "?T6 ''battle_record'' = Some ?nb" by simp
  have free: "?T6 ''BATTLE_RECORD_USER_ID'' = None" "?T6 ''BATTLE_RECORD_PLAYERS'' = None"
    "?T6 ''BATTLE_RECORD_CREATED'' = None" "?T6 ''BATTLE_RECORD_AGGRIGATE'' = None"
    by (simp_all add: idx)
  have tc: "t_columns ?nb = battle_record_columns" by simp
  from run_indexes [of db6 ?T6 ?nb, OF st6 t6 tc free]
  obtain db10 where i10: "run indexes db6 = (None, db10)" and st10: "has_tables db10 ?T6"
    by blast
  have "run schema db3 = (None, db6)"
    by (simp add: schema_def c4 c5 c6 del: exec_stmt.simps)
  then have p3: "Exec None (schema @ indexes) db3 = (None, db10)"
    by (simp add: Exec_def no_faults_def run_append i10)
  \<comment> \<open>the copies\<close>
  let ?T7 = "?T6(''account'' \<mapsto> ta, ''account'' @ ''_tmp'' := None)"
  let ?T8 = "?T7(''user'' \<mapsto> tu, ''user'' @ ''_tmp'' := None)"
  let ?T9 = "?T8(''battle_record'' \<mapsto> tb, ''battle_record'' @ ''_tmp'' := None)"
  have k1a: "?T6 ''account'' = Some ?na" "t_rows ?na = []"
    "?T6 (''account'' @ ''_tmp'') = Some ta"
    "t_columns ta = t_columns ?na" "t_pkey ta = t_pkey ?na"
    "distinct (column_names ?na)"
    by (simp_all add: ta(2,3) column_names_def distinct_columns)
  from copy_step [of db10 ?T6 "''account''" ?na ta 6 "[''user'', ''battle_record'']",
      OF st10 k1a ta(4,5)]
  obtain db11 where k1: "copy_loop no_faults 6 [''account'', ''user'', ''battle_record''] db10 = copy_loop no_faults 10 [''user'', ''battle_record''] db11"
    and st11: "has_tables db11 ?T7"
    by auto
  have k2a: "?T7 ''user'' = Some ?nu" "t_rows ?nu = []"
    "?T7 (''user'' @ ''_tmp'') = Some tu"
    "t_columns tu = t_columns ?nu" "t_pkey tu = t_pkey ?nu"
    "distinct (column_names ?nu)"
    by (simp_all add: tu(2,3) column_names_def distinct_columns)
  from copy_step [of db11 ?T7 "''user''" ?nu tu 10 "[''battle_record'']",
      OF st11 k2a tu(4,5)]
  obtain db12 where k2: "copy_loop no_faults 10 [''user'', ''battle_record''] db11 = copy_loop no_faults 14 [''battle_record''] db12"
    and st12: "has_tables db12 ?T8"
    by auto
  have k3a: "?T8 ''battle_record'' = Some ?nb" "t_rows ?nb = []"
    "?T8 (''battle_record'' @ ''_tmp'') = Some tb"
    "t_columns tb = t_columns ?nb" "t_pkey tb = t_pkey ?nb"
    "distinct (column_names ?nb)"
    by (simp_all add: tb(2,3) column_names_def distinct_columns)
  from copy_step [of db12 ?T8 "''battle_record''" ?nb tb 14 "[]",
      OF st12 k3a tb(4,5)]
  obtain db13 where k3: "copy_loop no_faults 14 [''battle_record''] db12 = Inr db13"
    and st13: "has_tables db13 ?T9"
    by auto
  have p4: "copy_loop no_faults 6 [''account'', ''user'', ''battle_record''] db10 = Inr db13"
    by (simp only: k1 k2 k3)
  have m: "Migrate no_faults db = (None, db13)"
  proof -
    show ?thesis
      unfolding Migrate_def Let_def
      by (simp add: no_faults_def p1 p2 p3 p4 del: rename_loop.simps copy_loop.simps)
  qed
  have "?T9 x = T x" for x
    using ta(1) tu(1) tb(1) tmp by simp
  then have "?T9 = T" by (rule ext)
  with st13 have t: "db_tables db13 = db_tables db"
    and i: "dom (db_indexes db13) \<subseteq> set index_names"
    by (simp_all add: has_tables_def T_def)
  from m t at_current_schema_tables [OF cur t i] show ?thesis by blast
qed


text \<open>
  Claim C5.  On a database at the current schema, with no statement failing for an
  outside reason, \<^verbatim>\<open>Migrate\<close> succeeds, and succeeds again when run on its own result;
  after each run every table is what it was before: same columns, same key, same rows
  in the same order.
\<close>

theorem migrate_twice_noop:
  "at_current_schema db \<Longrightarrow>
   fst (Migrate no_faults db) = None \<and>
   db_tables (snd (Migrate no_faults db)) = db_tables db \<and>
   fst (Migrate no_faults (snd (Migrate no_faults db))) = None \<and>
   db_tables (snd (Migrate no_faults (snd (Migrate no_faults db)))) = db_tables db"
proof -
  assume cur: "at_current_schema db"
  from migrate_current [OF cur] obtain db1 where
    1: "Migrate no_faults db = (None, db1)" "db_tables db1 = db_tables db"
    and cur1: "at_current_schema db1" by blast
  from migrate_current [OF cur1] obtain db2 where
    2: "Migrate no_faults db1 = (None, db2)" "db_tables db2 = db_tables db1" by blast
  from 1 2 show ?thesis by simp
qed

lemma sample_current: "at_current_schema sample_database"
  by (auto simp: at_current_schema_def sample_database_def fresh_database_def Init_def Exec_def
      schema_def indexes_def index_names_eq Let_def pk_unique_def key_of_def column_names_def
      account_columns_def split: if_splits)


theorem migrate_twice_noop_witness:
  "at_current_schema sample_database \<and>
   fst (Migrate no_faults sample_database) = None \<and>
   db_tables (snd (Migrate no_faults sample_database)) = db_tables sample_database \<and>
   fst (Migrate no_faults (snd (Migrate no_faults sample_database))) = None \<and>
   db_tables (snd (Migrate no_faults (snd (Migrate no_faults sample_database)))) =
     db_tables sample_database"
  using migrate_twice_noop [OF sample_current] sample_current by simp

subsection \<open>Migrating a table with a column the new schema does not have\<close>


















subsection \<open>An observation on the indexes\<close>

text \<open>
  The tables come back from \<^verbatim>\<open>Migrate\<close>, the indexes need not.  An index follows its
  table through the rename, so when the new tables are created its name is taken and
  \<^verbatim>\<open>CREATE INDEX IF NOT EXISTS\<close> does nothing; dropping the old table then drops the
  index with it.  On the database that \<^verbatim>\<open>Init\<close> has just made, \<^verbatim>\<open>Migrate\<close> leaves no
  index at all.
\<close>

lemma init_creates_indexes:
  "dom (db_indexes (snd (Init None fresh_database))) = set index_names"
  by (auto simp: Init_def Exec_def fresh_database_def schema_def indexes_def index_names_eq
      column_names_def battle_record_columns_def split: if_splits)

lemma migrate_after_init_drops_indexes:
  "db_indexes (snd (Migrate no_faults (snd (Init None fresh_database)))) = Map.empty"
  by (rule ext)
    (simp add: Migrate_def Init_def Exec_def Query_def no_faults_def fresh_database_def
      schema_def indexes_def column_names_def account_columns_def user_columns_def
      battle_record_columns_def Let_def pk_unique_def build_row_def key_of_def)

end
